theory Spec2Isabelle
  imports Main
begin

section \<open>Python strings and lists\<close>

text \<open>
  Strings are \<^typ>\<open>string\<close>; the embedding covers ASCII text, which is what release
  identifiers, archive member names and property strings are made of.
\<close>

definition startswith :: "string \<Rightarrow> string \<Rightarrow> bool" where
  \<comment> \<open>\<open>s.startswith(p)\<close>\<close>
  "startswith s p = (take (length p) s = p)"

definition endswith :: "string \<Rightarrow> string \<Rightarrow> bool" where
  \<comment> \<open>\<open>s.endswith(p)\<close>\<close>
  "endswith s p = (length p \<le> length s \<and> drop (length s - length p) s = p)"

fun contains :: "string \<Rightarrow> string \<Rightarrow> bool" where
  \<comment> \<open>\<open>sub in s\<close>: \<open>sub\<close> occurs in \<open>s\<close> as a contiguous substring\<close>
  "contains sub [] = (sub = [])"
| "contains sub (c # cs) = (startswith (c # cs) sub \<or> contains sub cs)"

fun split_sep :: "char \<Rightarrow> string \<Rightarrow> string list" where
  \<comment> \<open>\<open>s.split(c)\<close> for a one-character separator: never empty, \<open>''''\<close> gives \<open>['''']\<close>\<close>
  "split_sep c [] = [[]]"
| "split_sep c (x # xs) =
     (if x = c then [] # split_sep c xs
      else (case split_sep c xs of w # ws \<Rightarrow> (x # w) # ws | [] \<Rightarrow> [[x]]))"

fun join_sep :: "string \<Rightarrow> string list \<Rightarrow> string" where
  \<comment> \<open>\<open>sep.join(xs)\<close>\<close>
  "join_sep sep [] = []"
| "join_sep sep [x] = x"
| "join_sep sep (x # y # ys) = x @ sep @ join_sep sep (y # ys)"

definition upper_char :: "char \<Rightarrow> char" where
  "upper_char c =
     (let n = (of_char c :: nat) in if 97 \<le> n \<and> n \<le> 122 then char_of (n - 32) else c)"

definition lower_char :: "char \<Rightarrow> char" where
  "lower_char c =
     (let n = (of_char c :: nat) in if 65 \<le> n \<and> n \<le> 90 then char_of (n + 32) else c)"

definition upper :: "string \<Rightarrow> string" where
  \<comment> \<open>\<open>s.upper()\<close>\<close>
  "upper s = map upper_char s"

definition lower :: "string \<Rightarrow> string" where
  \<comment> \<open>\<open>s.lower()\<close>\<close>
  "lower s = map lower_char s"

definition rsplit1 :: "char \<Rightarrow> string \<Rightarrow> string" where
  \<comment> \<open>\<open>s.rsplit(c, 1)[0]\<close>: the part before the last \<open>c\<close>, all of \<open>s\<close> when there is none\<close>
  "rsplit1 c s = (if c \<in> set s then rev (tl (dropWhile (\<lambda>x. x \<noteq> c) (rev s))) else s)"

definition is_space :: "char \<Rightarrow> bool" where
  \<comment> \<open>the blanks that \<open>int\<close> skips around an ASCII numeral: space and 0x09 to 0x0D (the
      separators 0x1C to 0x1F, blanks for \<open>str.isspace\<close>, are not among them)\<close>
  "is_space c = (let n = (of_char c :: nat) in n = 32 \<or> (9 \<le> n \<and> n \<le> 13))"

definition is_digit :: "char \<Rightarrow> bool" where
  "is_digit c = (let n = (of_char c :: nat) in 48 \<le> n \<and> n \<le> 57)"

definition is_word :: "char \<Rightarrow> bool" where
  \<comment> \<open>the regular-expression class \<open>\w\<close> on ASCII\<close>
  "is_word c =
     (let n = (of_char c :: nat)
      in (48 \<le> n \<and> n \<le> 57) \<or> (65 \<le> n \<and> n \<le> 90) \<or> (97 \<le> n \<and> n \<le> 122) \<or> n = 95)"

definition is_AZ :: "char \<Rightarrow> bool" where
  \<comment> \<open>the regular-expression class \<open>[A-Z]\<close>\<close>
  "is_AZ c = (let n = (of_char c :: nat) in 65 \<le> n \<and> n \<le> 90)"

definition strip :: "string \<Rightarrow> string" where
  \<comment> \<open>the numeral without the blanks around it\<close>
  "strip s = rev (dropWhile is_space (rev (dropWhile is_space s)))"

fun digits_val :: "nat \<Rightarrow> string \<Rightarrow> nat option" where
  \<comment> \<open>decimal digits, a single underscore allowed between two digits; the accumulator
      holds the value read so far and the list starts right after a digit\<close>
  "digits_val acc [] = Some acc"
| "digits_val acc [c] = (if is_digit c then Some (10 * acc + (of_char c - 48)) else None)"
| "digits_val acc (c # d # ds) =
     (if is_digit c then digits_val (10 * acc + (of_char c - 48)) (d # ds)
      else if c = CHR ''_'' \<and> is_digit d then digits_val acc (d # ds)
      else None)"

definition digits :: "string \<Rightarrow> nat option" where
  "digits s = (case s of [] \<Rightarrow> None | c # cs \<Rightarrow> if is_digit c then digits_val 0 s else None)"

definition py_int :: "string \<Rightarrow> int option" where
  \<comment> \<open>\<open>int(s)\<close>; \<open>None\<close> is ValueError\<close>
  "py_int s =
     (case strip s of
        [] \<Rightarrow> None
      | c # cs \<Rightarrow>
          if c = CHR ''-'' then map_option (\<lambda>n. - int n) (digits cs)
          else if c = CHR ''+'' then map_option int (digits cs)
          else map_option int (digits (c # cs)))"

definition py_index :: "'a list \<Rightarrow> int \<Rightarrow> 'a option" where
  \<comment> \<open>\<open>xs[i]\<close>, negative indices counting from the end; \<open>None\<close> is IndexError\<close>
  "py_index xs i =
     (let n = int (length xs); j = (if i < 0 then n + i else i)
      in if 0 \<le> j \<and> j < n then Some (xs ! nat j) else None)"

section \<open>Errors and external effects\<close>

text \<open>
  Every exception that leaves a function is a value of \<open>error\<close>. Calls to the external
  collaborators (logger, HTTP client, ZFS library, archive library, jail lifecycle) are
  recorded in order in a trace of \<open>event\<close>s.
\<close>

datatype level = INFO | WARNING | ERROR | VERBOSE

datatype error =
    Fatal string              \<comment> \<open>\<open>logit\<close> at level EXCEPTION with this message\<close>
  | FatalValueError           \<comment> \<open>\<open>logit\<close> at level EXCEPTION with a caught ValueError as message\<close>
  | FatalOSError              \<comment> \<open>\<open>logit\<close> at level EXCEPTION with a caught OSError as message\<close>
  | SystemExit nat            \<comment> \<open>\<open>exit()\<close> and \<open>sys.exit(n)\<close>\<close>
  | KeyError string
  | IndexError
  | ValueError
  | FileNotFoundError string
  | HTTPError string          \<comment> \<open>\<open>raise_for_status\<close> on the request for this URL\<close>
  | ReadError string          \<comment> \<open>\<open>tarfile.open\<close> on something that is no archive\<close>
  | PathTraversal             \<comment> \<open>\<open>Exception("Attempted Path Traversal in Tar File")\<close>\<close>
  | KeyboardInterrupt
  | ExternalError string      \<comment> \<open>any other exception of an external collaborator\<close>

datatype event =
    Logit level string
  | HttpGet string
  | ZfsCreate string
  | ZfsMount string
  | ZfsUnmount string
  | ZfsDelete string
  | TarOpen string
  | FetchUpdate
  | CreateJail string "string list"
  | DestroyJail string
  | Kldload string
  | InstallPackages string
  | CloneArtifact string
  | ExecPostInstall string

text \<open>
  Modelled from the spec: \<open>iocage.lib.ioc_common.logit\<close> is not part of the sources.
  Section 7 of the specification makes every EXCEPTION-level report a fatal condition that
  surfaces one message and aborts, so a call at level EXCEPTION is the error \<open>Fatal\<close>, and
  a call at any other level is an event of the trace.
\<close>

section \<open>Construction of a fetch and choice of the backend\<close>

record fetch =
  release :: "string option"
  server :: string
  root_dir :: "string option"
  http :: bool
  file_flag :: bool  \<comment> \<open>\<open>self._file\<close>\<close>
  verify :: bool
  hardened :: bool
  files :: "string list"
  update :: bool
  eol :: bool
  auth :: "string option"
  iocroot :: string
  pool :: string
  arch :: string

definition truthy :: "string option \<Rightarrow> bool" where
  \<comment> \<open>\<open>if release:\<close> on \<open>None\<close> or a string\<close>
  "truthy r = (case r of None \<Rightarrow> False | Some s \<Rightarrow> s \<noteq> [])"

definition init_release :: "string option \<Rightarrow> bool \<Rightarrow> string option" where
  \<comment> \<open>the value of \<open>self.release\<close> at the end of \<open>IOCFetch.__init__\<close>\<close>
  "init_release rel hard =
     (let r1 = (if truthy rel then map_option upper rel else rel)
      in if hard
         then (if truthy rel then map_option (\<lambda>s. upper (take 2 s @ ''-stable'')) r1 else rel)
         else r1)"

definition init :: "string option \<Rightarrow> string \<Rightarrow> string option \<Rightarrow> string option \<Rightarrow> bool \<Rightarrow> bool \<Rightarrow>
    bool \<Rightarrow> bool \<Rightarrow> bool \<Rightarrow> bool \<Rightarrow> string list \<Rightarrow> string \<Rightarrow> string \<Rightarrow> string \<Rightarrow> fetch" where
  \<comment> \<open>\<open>IOCFetch.__init__\<close>; \<open>iocroot\<close>, \<open>pool\<close> and \<open>arch\<close> come from the configuration
      store and \<open>os.uname\<close>\<close>
  "init rel srv au rdir ht fl vfy hard upd eo fs ioc pl ar =
     \<lparr> release = init_release rel hard, server = srv, root_dir = rdir,
       http = (if hard then True else ht), file_flag = fl, verify = vfy, hardened = hard,
       files = fs, update = upd, eol = eo, auth = au, iocroot = ioc, pool = pl, arch = ar \<rparr>"

datatype backend = NetworkedFileServer | LocalDirectory | FileTransferProtocol

definition fetch_release_backend :: "fetch \<Rightarrow> backend" where
  \<comment> \<open>the branch that \<open>fetch_release\<close> takes\<close>
  "fetch_release_backend c =
     (if http c then NetworkedFileServer
      else if file_flag c then LocalDirectory
      else FileTransferProtocol)"

section \<open>Release selection\<close>

fun sub_nonword_word_any :: "string \<Rightarrow> string" where
  \<comment> \<open>\<open>re.sub(r"\W\w.", "-", s)\<close>: leftmost non-overlapping matches\<close>
  "sub_nonword_word_any (a # b # c # rest) =
     (if \<not> is_word a \<and> is_word b \<and> c \<noteq> CHR 0x0A then CHR ''-'' # sub_nonword_word_any rest
      else a # sub_nonword_word_any (b # c # rest))"
| "sub_nonword_word_any s = s"

function sub_capital_word :: "string \<Rightarrow> string" where
  \<comment> \<open>\<open>re.sub(r"([A-Z])\w+", "STABLE", s)\<close>: the match is greedy\<close>
  "sub_capital_word (a # b # rest) =
     (if is_AZ a \<and> is_word b then ''STABLE'' @ sub_capital_word (dropWhile is_word rest)
      else a # sub_capital_word (b # rest))"
| "sub_capital_word [a] = [a]"
| "sub_capital_word [] = []"
  by pat_completeness auto
termination
  by (relation "measure length") (auto intro: le_less_trans [OF length_dropWhile_le])

definition fetch_host_release :: "string \<Rightarrow> string" where
  \<comment> \<open>\<open>__fetch_host_release__\<close>, on \<open>rel = os.uname()[2]\<close>\<close>
  "fetch_host_release rel =
     (let r = rsplit1 CHR ''-'' rel
      in if contains ''-STABLE'' rel then r @ ''-RELEASE''
         else if contains ''-HBSD'' rel then sub_capital_word (sub_nonword_word_any r)
         else if \<not> contains ''-RELEASE'' rel then ''Not a RELEASE''
         else r)"

definition fetch_validate_release ::
    "string \<Rightarrow> bool \<Rightarrow> string \<Rightarrow> string list \<Rightarrow> error + (string \<times> bool)" where
  \<comment> \<open>\<open>__fetch_validate_release__\<close> on \<open>self.release = rel\<close>, \<open>self.hardened = hard\<close> and
      the host's \<open>os.uname()[2]\<close>; returns the release and the new \<open>self.hardened\<close>\<close>
  "fetch_validate_release rel hard uname releases =
     (if lower rel = ''exit'' then Inl (SystemExit 0)
      else if length rel > 2 then
        (if rel \<in> set releases then Inr (rel, hard) else Inl FatalValueError)
      else
        (case py_int rel of
           Some i \<Rightarrow>
             (case py_index releases i of
                Some r \<Rightarrow> Inr (r, hard)
              | None \<Rightarrow> Inl (Fatal (''['' @ rel @ ''] is not in the list!'')))
         | None \<Rightarrow>
             (let h = fetch_host_release uname
              in if contains ''-STABLE'' h then Inr (h, True)
                 else if h \<in> set releases then Inr (h, hard)
                 else Inl (Fatal ''Please select an item!''))))"

section \<open>The world the fetch acts on\<close>

text \<open>
  The download dataset of the release is a flat directory, \<open>dl\<close>: its files by name, or
  \<open>None\<close> while the directory does not exist. Every other regular file is in \<open>fs\<close>, by
  normalised absolute path, and \<open>dirs\<close> holds the directories that \<open>os.path.isdir\<close>
  finds. The two stores are kept apart: extraction is taken not to touch the files of the
  download dataset.
\<close>

record world =
  dl :: "(string \<rightharpoonup> string) option"
  fs :: "string \<rightharpoonup> string"
  dirs :: "string set"
  cwd :: string
  trace :: "event list"

type_synonym 'a result = "(error + 'a) \<times> world"

definition andthen :: "'a result \<Rightarrow> ('a \<Rightarrow> world \<Rightarrow> 'b result) \<Rightarrow> 'b result" where
  \<comment> \<open>sequencing: an exception skips the rest and keeps the world of the moment it was raised\<close>
  "andthen r k = (case r of (Inl e, w) \<Rightarrow> (Inl e, w) | (Inr a, w) \<Rightarrow> k a w)"

definition emit :: "event \<Rightarrow> world \<Rightarrow> world" where
  "emit e w = w\<lparr>trace := trace w @ [e]\<rparr>"

definition rel :: "fetch \<Rightarrow> string" where
  \<comment> \<open>\<open>self.release\<close> as an f-string prints it\<close>
  "rel c = (case release c of None \<Rightarrow> ''None'' | Some r \<Rightarrow> r)"

section \<open>Paths (\<open>os.path\<close> on POSIX)\<close>

definition isabs :: "string \<Rightarrow> bool" where
  "isabs p = startswith p ''/''"

definition path_join :: "string \<Rightarrow> string \<Rightarrow> string" where
  \<comment> \<open>\<open>os.path.join(a, b)\<close>\<close>
  "path_join a b =
     (if startswith b ''/'' then b
      else if a = [] \<or> endswith a ''/'' then a @ b
      else a @ ''/'' @ b)"

definition norm_step :: "nat \<Rightarrow> string list \<Rightarrow> string \<Rightarrow> string list" where
  \<comment> \<open>one round of the loop of \<open>normpath\<close> over the components (\<open>comp\<close> is \<open>part\<close> here)\<close>
  "norm_step ini new_parts part =
     (if part = [] \<or> part = ''.'' then new_parts
      else if part \<noteq> ''..'' \<or> (ini = 0 \<and> new_parts = [])
              \<or> (new_parts \<noteq> [] \<and> last new_parts = ''..'')
        then new_parts @ [part]
      else if new_parts \<noteq> [] then butlast new_parts
      else new_parts)"

definition initial_slashes :: "string \<Rightarrow> nat" where
  "initial_slashes p =
     (if startswith p ''/''
      then (if startswith p ''//'' \<and> \<not> startswith p ''///'' then 2 else 1)
      else 0)"

definition normpath :: "string \<Rightarrow> string" where
  \<comment> \<open>\<open>os.path.normpath\<close>\<close>
  "normpath p =
     (if p = [] then ''.''
      else
        (let ini = initial_slashes p;
             comps = foldl (norm_step ini) [] (split_sep CHR ''/'' p);
             path = replicate ini CHR ''/'' @ join_sep ''/'' comps
         in if path = [] then ''.'' else path))"

definition abspath :: "string \<Rightarrow> string \<Rightarrow> string" where
  \<comment> \<open>\<open>os.path.abspath\<close> when the current directory is \<open>wd\<close>\<close>
  "abspath wd p = normpath (if isabs p then p else path_join wd p)"

fun commonprefix :: "string \<Rightarrow> string \<Rightarrow> string" where
  \<comment> \<open>\<open>os.path.commonprefix([a, b])\<close>: the longest common prefix, character by character\<close>
  "commonprefix (x # xs) (y # ys) = (if x = y then x # commonprefix xs ys else [])"
| "commonprefix _ _ = []"

section \<open>Archive extraction\<close>

record member =
  mname :: string   \<comment> \<open>\<open>TarInfo.name\<close>\<close>
  mdata :: string   \<comment> \<open>the bytes of the regular file\<close>

definition not_relative :: "string \<Rightarrow> bool" where
  \<comment> \<open>the test of \<open>__fetch_check_members__\<close>\<close>
  "not_relative n = (contains ''..'' n \<or> \<not> startswith n ''./'')"

fun fetch_check_members :: "member list \<Rightarrow> world \<Rightarrow> member list \<times> world" where
  \<comment> \<open>\<open>__fetch_check_members__\<close>\<close>
  "fetch_check_members [] w = ([], w)"
| "fetch_check_members (m # ms) w =
     (if mname m = ''.'' then fetch_check_members ms w
      else if not_relative (mname m) then
        fetch_check_members ms
          (emit (Logit WARNING (mname m @ '' is not a relative file, skipping '')) w)
      else (case fetch_check_members ms w of (ks, w') \<Rightarrow> (m # ks, w')))"

definition release_root :: "fetch \<Rightarrow> string" where
  \<comment> \<open>\<open>dest\<close> of \<open>fetch_extract\<close>\<close>
  "release_root c = iocroot c @ ''/releases/'' @ rel c @ ''/root''"

definition dirname :: "string \<Rightarrow> string" where
  \<comment> \<open>\<open>os.path.dirname\<close>\<close>
  "dirname p =
     (let head = take (length p - length (takeWhile (\<lambda>x. x \<noteq> CHR ''/'') (rev p))) p
      in if head \<noteq> [] \<and> \<not> list_all (\<lambda>x. x = CHR ''/'') head
         then rev (dropWhile (\<lambda>x. x = CHR ''/'') (rev head))
         else head)"

definition is_dir :: "world \<Rightarrow> string \<Rightarrow> bool" where
  \<comment> \<open>the normalised absolute path is a directory of the host: a root, the current
      directory, a directory of \<open>dirs\<close>, or one that such a directory lies under\<close>
  "is_dir w p =
     (p = ''/'' \<or> p = ''//''
      \<or> (\<exists>q \<in> insert (cwd w) (dirs w).
            abspath (cwd w) q = p \<or> startswith (abspath (cwd w) q) (p @ ''/'')))"

fun resolve_walk :: "world \<Rightarrow> string \<Rightarrow> string list \<Rightarrow> string list \<Rightarrow> string option" where
  \<comment> \<open>the walk of the kernel along the components of a path, from the directory
      \<open>root\<close> followed by \<open>st\<close>: a component is looked up in a directory that exists, else
      the walk fails (ENOENT, ENOTDIR). The host has no symbolic links\<close>
  "resolve_walk w root st [] = Some (root @ join_sep ''/'' st)"
| "resolve_walk w root st (x # xs) =
     (if \<not> is_dir w (root @ join_sep ''/'' st) then None
      else if x = [] \<or> x = ''.'' then resolve_walk w root st xs
      else if x = ''..'' then resolve_walk w root (butlast st) xs
      else resolve_walk w root (st @ [x]) xs)"

definition resolve :: "world \<Rightarrow> string \<Rightarrow> string option" where
  \<comment> \<open>the file or directory a path names; \<open>None\<close> when a directory on the way is missing\<close>
  "resolve w p =
     (let q = (if isabs p then p else path_join (cwd w) p)
      in resolve_walk w (replicate (initial_slashes q) CHR ''/'') [] (split_sep CHR ''/'' q))"

definition os_remove :: "string \<Rightarrow> world \<Rightarrow> world" where
  \<comment> \<open>\<open>os.remove\<close> with its IOError and OSError swallowed: the file the path resolves to is
      deleted; nothing happens when the path does not resolve, or resolves to no file\<close>
  "os_remove p w =
     (case resolve w p of
        None \<Rightarrow> w
      | Some q \<Rightarrow> w\<lparr>fs := (fs w)(q := None)\<rparr>)"

fun fetch_extract_remove :: "fetch \<Rightarrow> member list \<Rightarrow> world \<Rightarrow> world" where
  \<comment> \<open>\<open>__fetch_extract_remove__\<close>; the list it returns is the list it was given\<close>
  "fetch_extract_remove c [] w = w"
| "fetch_extract_remove c (f # fs') w =
     fetch_extract_remove c fs' (os_remove (release_root c @ ''/'' @ mname f) w)"

definition is_within_directory :: "string \<Rightarrow> string \<Rightarrow> string \<Rightarrow> bool" where
  "is_within_directory wd directory target =
     (let abs_directory = abspath wd directory;
          abs_target = abspath wd target;
          prefix = commonprefix abs_directory abs_target
      in prefix = abs_directory)"

fun extractall :: "string \<Rightarrow> member list \<Rightarrow> world \<Rightarrow> world" where
  \<comment> \<open>\<open>tar.extractall(path, members)\<close>: each member is written at \<open>os.path.join(path, name)\<close>,
      the directories above it made when missing\<close>
  "extractall path [] w = w"
| "extractall path (m # ms) w =
     extractall path ms
       (w\<lparr>fs := (fs w)(abspath (cwd w) (path_join path (mname m)) \<mapsto> mdata m),
          dirs := insert (dirname (abspath (cwd w) (path_join path (mname m)))) (dirs w)\<rparr>)"

definition safe_extract :: "member list \<Rightarrow> string \<Rightarrow> member list \<Rightarrow> world \<Rightarrow> unit result" where
  \<comment> \<open>\<open>safe_extract(tar, path, members)\<close>; \<open>tar_members\<close> is \<open>tar.getmembers()\<close>\<close>
  "safe_extract tar_members path members w =
     (if \<exists>m \<in> set tar_members. \<not> is_within_directory (cwd w) path (path_join path (mname m))
      then (Inl PathTraversal, w)
      else (Inr (), extractall path members w))"

definition ensure_release_dataset :: "fetch \<Rightarrow> world \<Rightarrow> world" where
  \<comment> \<open>the first statement of \<open>fetch_extract\<close>: create and mount the release dataset unless
      its directory is there\<close>
  "ensure_release_dataset c w =
     (let dest = release_root c;
          dataset = pool c @ ''/iocage/releases/'' @ rel c @ ''/root''
      in if dest \<in> dirs w then w
         else emit (ZfsMount dataset) (emit (ZfsCreate dataset) (w\<lparr>dirs := insert dest (dirs w)\<rparr>)))"

definition fetch_extract :: "(string \<Rightarrow> member list option) \<Rightarrow> fetch \<Rightarrow> string \<Rightarrow> world \<Rightarrow> unit result" where
  \<comment> \<open>\<open>fetch_extract\<close>; \<open>untar\<close> is what \<open>tarfile\<close> reads from the bytes of an archive,
      \<open>None\<close> when they are no archive\<close>
  "fetch_extract untar c f w =
     (let src = iocroot c @ ''/download/'' @ rel c @ ''/'' @ f;
          dest = release_root c;
          w1 = ensure_release_dataset c w
      in case (case dl w1 of None \<Rightarrow> None | Some d \<Rightarrow> d f) of
           None \<Rightarrow> (Inl (FileNotFoundError src), w1)
         | Some bytes \<Rightarrow>
             (case untar bytes of
                None \<Rightarrow> (Inl (ReadError src), w1)
              | Some tar_members \<Rightarrow>
                  (let w2 = fetch_extract_remove c tar_members (emit (TarOpen src) w1);
                       (member, w3) = fetch_check_members tar_members w2
                   in safe_extract tar_members dest member w3)))"

section \<open>Download and verification\<close>

text \<open>
  The embedding follows the calls that \<open>fetch_http_release\<close> makes, so \<open>ftp\<close> is \<open>False\<close>
  throughout. The web server is a function \<open>srv\<close> from the trace so far and a URL to the
  body of the response, \<open>None\<close> for a status that is not OK (every response is taken to
  carry its content length). \<open>sha\<close> is the SHA-256 hex digest of a file's bytes.
\<close>

definition dl_path :: "fetch \<Rightarrow> string" where
  "dl_path c = iocroot c @ ''/download/'' @ rel c"

definition rdir :: "fetch \<Rightarrow> string" where
  \<comment> \<open>\<open>self.root_dir\<close> as an f-string prints it\<close>
  "rdir c = (case root_dir c of None \<Rightarrow> ''None'' | Some d \<Rightarrow> d)"

definition file_url :: "fetch \<Rightarrow> string \<Rightarrow> string" where
  \<comment> \<open>\<open>_file\<close> of \<open>fetch_download\<close>\<close>
  "file_url c f =
     (if hardened c then server c @ ''/'' @ rdir c @ ''/'' @ f
      else server c @ ''/'' @ rdir c @ ''/'' @ rel c @ ''/'' @ f)"

definition write_dl :: "string \<Rightarrow> string \<Rightarrow> world \<Rightarrow> world" where
  \<comment> \<open>\<open>open(f, "wb")\<close> and the writes, in the download dataset\<close>
  "write_dl f body w =
     w\<lparr>dl := Some ((case dl w of None \<Rightarrow> Map.empty | Some d \<Rightarrow> d)(f \<mapsto> body))\<rparr>"

fun http_download :: "(event list \<Rightarrow> string \<Rightarrow> string option) \<Rightarrow> fetch \<Rightarrow> string list \<Rightarrow> world \<Rightarrow> unit result" where
  \<comment> \<open>the loop \<open>for f in _list\<close> of the HTTP branch of \<open>fetch_download\<close>\<close>
  "http_download srv c [] w = (Inr (), w)"
| "http_download srv c (f # fs') w =
     (if hardened c \<and> f = ''lib32.txz'' then http_download srv c fs' w
      else
        (case srv (trace w) (file_url c f) of
           None \<Rightarrow> (Inl (HTTPError (file_url c f)), emit (HttpGet (file_url c f)) w)
         | Some body \<Rightarrow>
             http_download srv c fs' (write_dl f body (emit (HttpGet (file_url c f)) w))))"

definition fetch_download :: "(event list \<Rightarrow> string \<Rightarrow> string option) \<Rightarrow> fetch \<Rightarrow> string list \<Rightarrow> bool \<Rightarrow> world \<Rightarrow> unit result" where
  \<comment> \<open>\<open>fetch_download(_list, ftp=False, missing)\<close>\<close>
  "fetch_download srv c list missing w =
     (let dataset = pool c @ ''/iocage/download/'' @ rel c;
          fresh = (case dl w of None \<Rightarrow> True | Some d \<Rightarrow> False);
          w1 = (if fresh
                then emit (ZfsMount dataset) (emit (ZfsCreate dataset) (w\<lparr>dl := Some Map.empty\<rparr>))
                else w)
      in if missing \<or> fresh then
           (let w2 = w1\<lparr>cwd := dl_path c\<rparr>
            in if http c then http_download srv c list w2 else (Inr (), w2))
         else (Inr (), w1))"

fun universal_newlines :: "string \<Rightarrow> string" where
  \<comment> \<open>what a file opened in mode \<open>"r"\<close> hands out: CR LF and a bare CR are read as LF\<close>
  "universal_newlines [] = []"
| "universal_newlines [x] = [if x = CHR 0x0D then CHR 0x0A else x]"
| "universal_newlines (x # y # ys) =
     (if x = CHR 0x0D
      then CHR 0x0A # (if y = CHR 0x0A then universal_newlines ys else universal_newlines (y # ys))
      else x # universal_newlines (y # ys))"

fun split_lines :: "string \<Rightarrow> string list" where
  \<comment> \<open>the pieces that end with LF, and the rest if there is one\<close>
  "split_lines [] = []"
| "split_lines (x # xs) =
     (if x = CHR 0x0A then [x] # split_lines xs
      else (case split_lines xs of [] \<Rightarrow> [[x]] | l # ls \<Rightarrow> (x # l) # ls))"

definition lines_keepends :: "string \<Rightarrow> string list" where
  \<comment> \<open>the lines a text file iterates over, each with its newline\<close>
  "lines_keepends s = split_lines (universal_newlines s)"

fun manifest_lines :: "(string \<rightharpoonup> string) \<Rightarrow> string list \<Rightarrow> error + (string \<rightharpoonup> string)" where
  \<comment> \<open>\<open>col = line.split("\t"); hashes[col[0]] = col[1]\<close> for every line\<close>
  "manifest_lines hashes [] = Inr hashes"
| "manifest_lines hashes (line # ls) =
     (case split_sep CHR 0x09 line of
        k # v # rest \<Rightarrow> manifest_lines (hashes(k \<mapsto> v)) ls
      | _ \<Rightarrow> Inl IndexError)"

definition too_many :: string where
  "too_many = ''Too many failed verifications!''"

definition verify_file :: "(string \<Rightarrow> string) \<Rightarrow> (string \<rightharpoonup> string) \<Rightarrow> string list \<Rightarrow> bool \<Rightarrow> string \<Rightarrow>
    string list \<Rightarrow> world \<Rightarrow> (string list) result" where
  \<comment> \<open>the statement \<open>if f in _list: ...\<close> of the loop of \<open>__fetch_check__\<close>; the result is
      the list \<open>missing\<close> after it\<close>
  "verify_file sha hashes list retry f missing w =
     (if f \<in> set list then
        (case (case dl w of None \<Rightarrow> None | Some d \<Rightarrow> d f) of
           Some bytes \<Rightarrow>
             (case hashes f of
                None \<Rightarrow> (Inl (KeyError f), w)
              | Some h \<Rightarrow>
                  if h \<noteq> sha bytes then
                    (if \<not> retry
                     then (Inr (missing @ [f]),
                           emit (Logit WARNING (f @ '' failed verification, will redownload!'')) w)
                     else (Inl (Fatal too_many), w))
                  else (Inr missing, w))
         | None \<Rightarrow>
             (if \<not> retry
              then (Inr (missing @ [f]),
                    emit (Logit WARNING (f @ '' missing, will try to redownload!'')) w)
              else (Inl (Fatal too_many), w)))
      else (Inr missing, w))"

fun check_files :: "(string \<Rightarrow> string) \<Rightarrow> (string \<Rightarrow> member list option) \<Rightarrow> fetch \<Rightarrow> (string \<rightharpoonup> string) \<Rightarrow>
    string list \<Rightarrow> bool \<Rightarrow> string list \<Rightarrow> string list \<Rightarrow> world \<Rightarrow> (string list) result" where
  \<comment> \<open>the loop \<open>for f in self.files\<close> of \<open>__fetch_check__\<close>, from the files still to visit
      and the list \<open>missing\<close> so far\<close>
  "check_files sha untar c hashes list retry [] missing w = (Inr missing, w)"
| "check_files sha untar c hashes list retry (f # fs') missing w =
     (if f = ''MANIFEST'' then check_files sha untar c hashes list retry fs' missing w
      else if hardened c \<and> f = ''lib32.txz'' then check_files sha untar c hashes list retry fs' missing w
      else
        (case verify_file sha hashes list retry f missing w of
           (Inl e, w') \<Rightarrow> (Inl e, w')
         | (Inr missing', w') \<Rightarrow>
             if missing' = [] then
               (case fetch_extract untar c f (emit (Logit INFO (''Extracting: '' @ f @ ''... '')) w') of
                  (Inl e, w'') \<Rightarrow> (Inl e, w'')
                | (Inr u, w'') \<Rightarrow> check_files sha untar c hashes list retry fs' missing' w'')
             else check_files sha untar c hashes list retry fs' missing' w'))"

definition manifest_url :: "fetch \<Rightarrow> string" where
  "manifest_url c = server c @ ''/'' @ rdir c @ ''/'' @ rel c @ ''/MANIFEST''"

definition refetch_manifest :: "(event list \<Rightarrow> string \<Rightarrow> string option) \<Rightarrow> fetch \<Rightarrow> world \<Rightarrow> unit result" where
  \<comment> \<open>the loop over \<open>os.walk(".")\<close> of \<open>__fetch_check__\<close>, the download dataset being flat\<close>
  "refetch_manifest srv c w =
     (if (case dl w of None \<Rightarrow> None | Some d \<Rightarrow> d ''MANIFEST'') = None
         \<and> server c = ''https://download.freebsd.org''
      then
        (case srv (trace w) (manifest_url c) of
           None \<Rightarrow> (Inl (HTTPError (manifest_url c)), emit (HttpGet (manifest_url c)) w)
         | Some body \<Rightarrow> (Inr (), write_dl ''MANIFEST'' body (emit (HttpGet (manifest_url c)) w)))
      else (Inr (), w))"

definition fetch_check :: "(event list \<Rightarrow> string \<Rightarrow> string option) \<Rightarrow> (string \<Rightarrow> string) \<Rightarrow>
    (string \<Rightarrow> member list option) \<Rightarrow> fetch \<Rightarrow> string list \<Rightarrow> bool \<Rightarrow> world \<Rightarrow> (string list option) result" where
  \<comment> \<open>\<open>__fetch_check__(_list, ftp=False, _missing)\<close>; \<open>None\<close> is the return without a value
      when the download directory does not exist\<close>
  "fetch_check srv sha untar c list retry w =
     (case dl w of
        None \<Rightarrow> (Inr None, w)
      | Some d \<Rightarrow>
          andthen (refetch_manifest srv c (w\<lparr>cwd := dl_path c\<rparr>))
            (\<lambda>u w2.
               case (case dl w2 of None \<Rightarrow> None | Some d2 \<Rightarrow> d2 ''MANIFEST'') of
                 None \<Rightarrow>
                   andthen (check_files sha untar c Map.empty list retry (files c) [''MANIFEST''] w2)
                     (\<lambda>missing w3. (Inr (Some missing), w3))
               | Some text \<Rightarrow>
                   (case manifest_lines Map.empty (lines_keepends text) of
                      Inl e \<Rightarrow> (Inl e, w2)
                    | Inr hashes \<Rightarrow>
                        andthen (check_files sha untar c hashes list retry (files c) [] w2)
                          (\<lambda>missing w3. (Inr (Some missing), w3)))))"


section \<open>Fetch from a local directory\<close>

text \<open>
  Modelled from the spec: \<open>libzfs\<close> is not part of the sources. Creating and mounting the
  download dataset makes its directory exist and be empty; unmounting and deleting it makes
  the directory vanish. The calls are events of the trace, with the names the code passes.
\<close>

definition local_dir :: "fetch \<Rightarrow> string" where
  \<comment> \<open>\<open>f"{self.root_dir}/{self.release}"\<close>\<close>
  "local_dir c = rdir c @ ''/'' @ rel c"

definition required_file_error :: "fetch \<Rightarrow> string \<Rightarrow> string" where
  \<comment> \<open>\<open>error\<close> in the loop of the local branch of \<open>fetch_release\<close>\<close>
  "required_file_error c f =
     (if f = ''MANIFEST''
      then f @ '' is a required file!'' @ [CHR 0x0A] @ ''Please place it in '' @ rdir c @ ''/'' @ rel c
      else f @ ''.txz is a required file!'' @ [CHR 0x0A] @ ''Please place it in '' @ rdir c @ ''/'' @ rel c)"

fun copy_files :: "(string \<Rightarrow> member list option) \<Rightarrow> fetch \<Rightarrow> string list \<Rightarrow> world \<Rightarrow> unit result" where
  \<comment> \<open>the loop \<open>for f in self.files\<close> of the local branch of \<open>fetch_release\<close>\<close>
  "copy_files untar c [] w = (Inr (), w)"
| "copy_files untar c (f # fs') w =
     (case fs w (abspath (cwd w) f) of
        None \<Rightarrow>
          (Inl (Fatal (required_file_error c f)),
           emit (ZfsDelete (pool c @ dl_path c)) (emit (ZfsUnmount (pool c @ dl_path c)) (w\<lparr>dl := None\<rparr>)))
      | Some bytes \<Rightarrow>
          (let w1 = write_dl f bytes (emit (Logit INFO (''Copying: '' @ f @ ''... '')) w)
           in if f \<noteq> ''MANIFEST'' then
                (case fetch_extract untar c f (emit (Logit INFO (''Extracting: '' @ f @ ''... '')) w1) of
                   (Inl e, w2) \<Rightarrow> (Inl e, w2)
                 | (Inr u, w2) \<Rightarrow> copy_files untar c fs' w2)
              else copy_files untar c fs' w1))"

definition enter_local_dir :: "fetch \<Rightarrow> world \<Rightarrow> world" where
  \<comment> \<open>the successful \<open>os.chdir\<close> and the creation of the download dataset unless its
      directory is there\<close>
  "enter_local_dir c w =
     (let w1 = w\<lparr>cwd := abspath (cwd w) (local_dir c)\<rparr>
      in case dl w1 of
           Some d \<Rightarrow> w1
         | None \<Rightarrow> emit (ZfsMount (dl_path c)) (emit (ZfsCreate (dl_path c)) (w1\<lparr>dl := Some Map.empty\<rparr>)))"

definition fetch_release_file :: "(string \<Rightarrow> member list option) \<Rightarrow> fetch \<Rightarrow> world \<Rightarrow> unit result" where
  \<comment> \<open>the branch \<open>elif self._file\<close> of \<open>fetch_release\<close>\<close>
  "fetch_release_file untar c w =
     (if \<not> truthy (root_dir c) then (Inl (Fatal ''Please supply --root-dir or -d.''), w)
      else if release c = None then (Inl (Fatal ''Please supply a RELEASE!''), w)
      else if local_dir c \<notin> dirs w then (Inl FatalOSError, w)
      else copy_files untar c (files c) (enter_local_dir c w))"

section \<open>Properties of a plugin\<close>

text \<open>
  \<open>__fetch_plugin_props__\<close> also fetches the release when it is absent and reads the userland
  version of the release from its \<open>freebsd-version\<close> file; here \<open>cloned\<close> is \<open>conf["release"]\<close>
  and \<open>userland\<close> is the version that was read. The properties of the descriptor are the
  items of a dictionary, in order, with their values as the f-string prints them.
\<close>

definition prop_key :: "string \<Rightarrow> string" where
  \<comment> \<open>\<open>_prop.split("=")[0]\<close>\<close>
  "prop_key p = hd (split_sep CHR ''='' p)"

fun merge_json_props :: "(string \<times> string) list \<Rightarrow> string list \<Rightarrow> string list" where
  \<comment> \<open>the loop \<open>for p, v in json_props.items()\<close>, on the list \<open>props\<close>\<close>
  "merge_json_props [] props = props"
| "merge_json_props ((p, v) # js) props =
     merge_json_props js
       (if p \<notin> set (map prop_key props) then props @ [p @ ''='' @ v] else props)"

fun format_props :: "string list \<Rightarrow> error + string list" where
  \<comment> \<open>\<open>[f"{k}={v}" for k, v in (p.split("=") for p in props)]\<close>: unpacking anything but two
      parts is a ValueError\<close>
  "format_props [] = Inr []"
| "format_props (p # ps) =
     (case split_sep CHR ''='' p of
        [k, v] \<Rightarrow> (case format_props ps of Inl e \<Rightarrow> Inl e | Inr rest \<Rightarrow> Inr ((k @ ''='' @ v) # rest))
      | _ \<Rightarrow> Inl ValueError)"

definition fetch_plugin_props :: "(string \<times> string) list \<Rightarrow> string list \<Rightarrow> string \<Rightarrow> string \<Rightarrow> error + string list" where
  \<comment> \<open>the list \<open>create_props\<close> that \<open>__fetch_plugin_props__\<close> returns\<close>
  "fetch_plugin_props json_props props cloned userland =
     (case format_props (merge_json_props json_props props) of
        Inl e \<Rightarrow> Inl e
      | Inr ps \<Rightarrow>
          Inr (ps @ [''cloned_release='' @ cloned, ''release='' @ userland, ''type=plugin'', ''boot=on'']))"

section \<open>Provisioning of a plugin\<close>

text \<open>
  The jail lifecycle (\<open>IOCCreate\<close>, \<open>IOCDestroy\<close>, \<open>IOCExec\<close>), \<open>kldload\<close> and the clone of the
  artifact are external: each call is an event of the trace, and its outcome is given by the
  environment. A call returns, is interrupted from the keyboard, or raises. The report of
  the admin portal at the end of \<open>__fetch_plugin_post_install__\<close>, which only reads and logs,
  is left out.
\<close>

datatype 'a outcome = Done 'a | Interrupt | Raise string

definition external :: "'a outcome \<Rightarrow> world \<Rightarrow> 'a result" where
  "external out w =
     (case out of
        Done a \<Rightarrow> (Inr a, w)
      | Interrupt \<Rightarrow> (Inl KeyboardInterrupt, w)
      | Raise msg \<Rightarrow> (Inl (ExternalError msg), w))"

record plugin_env =
  create_jail :: "unit outcome"             \<comment> \<open>\<open>IOCCreate(...).create_jail()\<close>\<close>
  ip4_addr :: string                        \<comment> \<open>\<open>_conf["ip4_addr"]\<close> of the created jail\<close>
  ip6_addr :: string
  dhcp :: string
  kldload :: "string \<Rightarrow> unit outcome"      \<comment> \<open>\<open>Raise\<close> is CalledProcessError\<close>
  install_packages :: "bool outcome"        \<comment> \<open>\<open>err\<close> of \<open>create_install_packages\<close>\<close>
  clone_repository :: "unit outcome"
  has_post_install :: bool                  \<comment> \<open>the artifact has a \<open>post_install.sh\<close>\<close>
  exec_jail :: "(string \<times> bool) outcome"    \<comment> \<open>\<open>msg, err\<close> of running \<open>post_install.sh\<close>\<close>

record plugin_conf =
  pname :: string                                        \<comment> \<open>\<open>conf["name"]\<close>\<close>
  pkgs :: "string list"
  fingerprints :: "(string \<times> (string \<times> string) list) list"
     \<comment> \<open>\<open>conf["fingerprints"]\<close>: repository name to its pairs of function and fingerprint\<close>
  packagesite :: string
  artifact :: string
  kmods :: "string list"

definition write_file :: "string \<Rightarrow> string \<Rightarrow> world \<Rightarrow> world" where
  \<comment> \<open>\<open>with open(path, "w") as f: f.write(body)\<close>: the file is truncated, then written\<close>
  "write_file path body w = w\<lparr>fs := (fs w)(abspath (cwd w) path \<mapsto> body)\<rparr>"

definition makedirs :: "string \<Rightarrow> world \<Rightarrow> bool \<times> world" where
  \<comment> \<open>\<open>os.makedirs(path)\<close>; \<open>False\<close> is the OSError for a directory that exists\<close>
  "makedirs path w = (if path \<in> dirs w then (False, w) else (True, w\<lparr>dirs := insert path (dirs w)\<rparr>))"

definition jail_dir :: "fetch \<Rightarrow> string \<Rightarrow> string" where
  "jail_dir c uuid = iocroot c @ ''/jails/'' @ uuid"

definition no_address :: "plugin_env \<Rightarrow> bool" where
  \<comment> \<open>the test of \<open>__fetch_plugin_create__\<close> on the configuration of the created jail\<close>
  "no_address env \<longleftrightarrow> ip4_addr env = ''none'' \<and> ip6_addr env = ''none'' \<and> dhcp env \<noteq> ''on''"

definition fetch_plugin_create :: "plugin_env \<Rightarrow> fetch \<Rightarrow> string list \<Rightarrow> string \<Rightarrow> world \<Rightarrow> (string \<times> string) result" where
  \<comment> \<open>\<open>__fetch_plugin_create__\<close>; returns \<open>jaildir\<close> and \<open>repo_dir\<close>\<close>
  "fetch_plugin_create env c create_props uuid w =
     andthen (external (create_jail env) (emit (CreateJail uuid create_props) w))
       (\<lambda>u w1.
          let jaildir = jail_dir c uuid;
              repo_dir = jaildir @ ''/root/usr/local/etc/pkg/repos'';
              path = pool c @ ''/iocage/jails/'' @ uuid
          in if no_address env
             then (Inl (Fatal ''Destroyed partial plugin.''),
                   emit (DestroyJail path)
                     (emit (Logit ERROR ([CHR 0x0A] @ ''An IP address is needed to fetch a plugin!'' @ [CHR 0x0A])) w1))
             else (Inr (jaildir, repo_dir), w1))"

fun load_kmods :: "plugin_env \<Rightarrow> string list \<Rightarrow> world \<Rightarrow> unit result" where
  \<comment> \<open>the loop \<open>for kmod in kmods\<close>\<close>
  "load_kmods env [] w = (Inr (), w)"
| "load_kmods env (k # ks) w =
     (case kldload env k of
        Done u \<Rightarrow> load_kmods env ks (emit (Kldload k) w)
      | Interrupt \<Rightarrow> (Inl KeyboardInterrupt, emit (Kldload k) w)
      | Raise msg \<Rightarrow> (Inl (Fatal ''Module not found!''), emit (Kldload k) w))"

definition finger_conf :: "string \<Rightarrow> string \<Rightarrow> string" where
  \<comment> \<open>\<open>finger_conf.format(function=..., fingerprint=...)\<close>\<close>
  "finger_conf fn fp = ''function: '' @ fn @ [CHR 0x0A] @ ''fingerprint: '' @ fp @ [CHR 0x0A]"

definition repo_conf :: "string \<Rightarrow> string \<Rightarrow> string" where
  \<comment> \<open>\<open>repo_conf.format(reponame=..., packagesite=...)\<close>\<close>
  "repo_conf reponame site =
     reponame @ '': {'' @ [CHR 0x0A]
     @ ''            url: '' @ [CHR 0x22] @ site @ [CHR 0x22] @ '','' @ [CHR 0x0A]
     @ ''            signature_type: '' @ [CHR 0x22] @ ''fingerprints'' @ [CHR 0x22] @ '','' @ [CHR 0x0A]
     @ ''            fingerprints: '' @ [CHR 0x22] @ ''/usr/local/etc/pkg/fingerprints/'' @ reponame
         @ [CHR 0x22] @ '','' @ [CHR 0x0A]
     @ ''            enabled: true'' @ [CHR 0x0A]
     @ ''            }'' @ [CHR 0x0A]"

fun write_fingerprints :: "string \<Rightarrow> (string \<times> string) list \<Rightarrow> world \<Rightarrow> world" where
  \<comment> \<open>the loop \<open>for r in repo\<close>, each round opening \<open>f_file\<close> in mode \<open>"w"\<close>\<close>
  "write_fingerprints f_file [] w = w"
| "write_fingerprints f_file ((fn, fp) # rs) w =
     write_fingerprints f_file rs (write_file f_file (finger_conf fn fp) w)"

definition f_dir :: "string \<Rightarrow> string \<Rightarrow> string" where
  "f_dir jaildir repo_name = jaildir @ ''/root/usr/local/etc/pkg/fingerprints/'' @ repo_name @ ''/trusted''"

definition f_file :: "string \<Rightarrow> string \<Rightarrow> string" where
  "f_file jaildir repo_name = f_dir jaildir repo_name @ ''/'' @ repo_name"

definition r_file :: "string \<Rightarrow> string \<Rightarrow> string" where
  "r_file repo_dir repo_name = repo_dir @ ''/'' @ repo_name @ ''.conf''"

definition write_repo :: "plugin_conf \<Rightarrow> string \<Rightarrow> string \<Rightarrow> string \<times> (string \<times> string) list \<Rightarrow> world \<Rightarrow> world" where
  \<comment> \<open>one round of the loop \<open>for repo in pkg_repos\<close>\<close>
  "write_repo conf jaildir repo_dir repo w =
     (case repo of (repo_name, pairs) \<Rightarrow>
        (let (made, w1) = makedirs (f_dir jaildir repo_name) w;
             w2 = (if made then w1
                   else emit (Logit ERROR (''Repo: '' @ repo_name @ '' already exists, skipping!'')) w1);
             w3 = write_file (r_file repo_dir repo_name) (repo_conf repo_name (packagesite conf)) w2
         in write_fingerprints (f_file jaildir repo_name) pairs w3))"

fun write_repos :: "plugin_conf \<Rightarrow> string \<Rightarrow> string \<Rightarrow> (string \<times> (string \<times> string) list) list \<Rightarrow> world \<Rightarrow> world" where
  "write_repos conf jaildir repo_dir [] w = w"
| "write_repos conf jaildir repo_dir (repo # repos) w =
     write_repos conf jaildir repo_dir repos (write_repo conf jaildir repo_dir repo w)"

definition fetch_plugin_install_packages :: "plugin_env \<Rightarrow> plugin_conf \<Rightarrow> string \<Rightarrow> string \<Rightarrow> string \<Rightarrow> world \<Rightarrow> unit result" where
  \<comment> \<open>\<open>__fetch_plugin_install_packages__\<close>\<close>
  "fetch_plugin_install_packages env conf uuid jaildir repo_dir w =
     andthen (load_kmods env (kmods conf) w)
       (\<lambda>u w1.
          let w2 = snd (makedirs repo_dir (snd (makedirs (jaildir @ ''/root/usr/local/etc/pkg/repos'') w1)));
              w3 = write_file (jaildir @ ''/root/usr/local/etc/pkg/repos/FreeBSD.conf'')
                     (''FreeBSD: { enabled: no }'' @ [CHR 0x0A]) w2;
              w4 = write_repos conf jaildir repo_dir (fingerprints conf) w3
          in if fingerprints conf = [] then (Inl (ExternalError ''UnboundLocalError''), w4)
             else
               andthen (external (install_packages env) (emit (InstallPackages uuid) w4))
                 (\<lambda>err w5.
                    (Inr (),
                     if err
                     then emit (Logit ERROR (''pkg error, refusing to fetch artifact and run post_install.sh!''
                                             @ [CHR 0x0A])) w5
                     else w5)))"

definition fetch_plugin_post_install :: "plugin_env \<Rightarrow> plugin_conf \<Rightarrow> string \<Rightarrow> string \<Rightarrow> world \<Rightarrow> unit result" where
  \<comment> \<open>\<open>__fetch_plugin_post_install__\<close>\<close>
  "fetch_plugin_post_install env conf jaildir uuid w =
     (if artifact conf \<noteq> [] then
        andthen (external (clone_repository env)
                   (emit (CloneArtifact (artifact conf)) (emit (Logit INFO ''Fetching artifact... '') w)))
          (\<lambda>u w1.
             if has_post_install env then
               andthen (external (exec_jail env)
                          (emit (ExecPostInstall uuid) (emit (Logit INFO ''Running post_install.sh'') w1)))
                 (\<lambda>r w2.
                    case r of (msg, err) \<Rightarrow>
                      if err then (Inl (Fatal ''An error occured! Please read above''), w2)
                      else (Inr (), emit (Logit INFO msg) w2))
             else (Inr (), w1))
      else (Inr (), w))"

definition plugin_steps :: "plugin_env \<Rightarrow> fetch \<Rightarrow> plugin_conf \<Rightarrow> string list \<Rightarrow> world \<Rightarrow> unit result" where
  \<comment> \<open>the body of the \<open>try\<close> statement that ends \<open>fetch_plugin\<close>, on the properties that
      \<open>__fetch_plugin_props__\<close> returned\<close>
  "plugin_steps env c conf props w =
     andthen (fetch_plugin_create env c props (pname conf) w)
       (\<lambda>created w1.
          case created of (jaildir, repo_dir) \<Rightarrow>
            andthen (fetch_plugin_install_packages env conf (pname conf) jaildir repo_dir w1)
              (\<lambda>u w2. fetch_plugin_post_install env conf jaildir (pname conf) w2))"

definition fetch_plugin :: "plugin_env \<Rightarrow> fetch \<Rightarrow> plugin_conf \<Rightarrow> string list \<Rightarrow> world \<Rightarrow> unit result" where
  \<comment> \<open>the \<open>try\<close> statement with its handler \<open>except KeyboardInterrupt\<close>\<close>
  "fetch_plugin env c conf props w =
     (case plugin_steps env c conf props w of
        (Inl KeyboardInterrupt, w') \<Rightarrow>
          (Inl (SystemExit 1), emit (DestroyJail (jail_dir c (pname conf))) w')
      | r \<Rightarrow> r)"

section \<open>Observations on a run\<close>

definition attempts :: "string \<Rightarrow> event list \<Rightarrow> nat" where
  \<comment> \<open>how many requests for a URL a trace holds\<close>
  "attempts url tr = length (filter (\<lambda>e. e = HttpGet url) tr)"

fun tar_opens :: "event list \<Rightarrow> string list" where
  \<comment> \<open>the archives opened for extraction, in order\<close>
  "tar_opens [] = []"
| "tar_opens (TarOpen p # es) = p # tar_opens es"
| "tar_opens (e # es) = tar_opens es"

definition archive_path :: "fetch \<Rightarrow> string \<Rightarrow> string" where
  \<comment> \<open>\<open>src\<close> of \<open>fetch_extract\<close>\<close>
  "archive_path c f = iocroot c @ ''/download/'' @ rel c @ ''/'' @ f"

definition checked :: "fetch \<Rightarrow> string \<Rightarrow> bool" where
  \<comment> \<open>the files that the loop of \<open>__fetch_check__\<close> does not pass over with \<open>continue\<close>\<close>
  "checked c f = (f \<noteq> ''MANIFEST'' \<and> \<not> (hardened c \<and> f = ''lib32.txz''))"




definition destroyed :: "event list \<Rightarrow> string list" where
  \<comment> \<open>the arguments of the calls of \<open>destroy_jail\<close>, in order\<close>
  "destroyed tr = concat (map (\<lambda>e. case e of DestroyJail p \<Rightarrow> [p] | _ \<Rightarrow> []) tr)"

definition demo_fetch :: fetch where
  \<comment> \<open>a fetch of 11.2-RELEASE over HTTP with the default file set\<close>
  "demo_fetch = init (Some ''11.2-RELEASE'') ''ftp.freebsd.org'' None None True False True False
      True True [''MANIFEST'', ''base.txz'', ''lib32.txz'', ''doc.txz''] ''/iocage'' ''zroot'' ''amd64''"

definition demo_world :: world where
  \<comment> \<open>a host whose download dataset holds \<open>base.txz\<close> and that has one file, in a directory
      next to the release datasets\<close>
  "demo_world =
     \<lparr> dl = Some [''base.txz'' \<mapsto> ''B''], fs = [''/iocage/releases/etc/passwd'' \<mapsto> ''root''],
       dirs = {''/iocage/releases/etc''}, cwd = ''/iocage/download/11.2-RELEASE'', trace = [] \<rparr>"

definition demo_untar :: "member list \<Rightarrow> string \<Rightarrow> member list option" where
  \<comment> \<open>an archive reader that finds the members \<open>ms\<close> in the bytes \<open>''B''\<close>\<close>
  "demo_untar ms b = (if b = ''B'' then Some ms else None)"

definition demo_sha :: "string \<Rightarrow> string" where
  \<comment> \<open>a stand-in digest: the digest of a file is the file\<close>
  "demo_sha bytes = bytes"

definition demo_manifest :: string where
  \<comment> \<open>a manifest of two archives\<close>
  "demo_manifest = ''base.txz'' @ [CHR 0x09] @ ''B'' @ [CHR 0x09] @ ''1'' @ [CHR 0x0A]
                 @ ''doc.txz'' @ [CHR 0x09] @ ''D'' @ [CHR 0x09] @ ''1'' @ [CHR 0x0A]"

definition demo_files :: fetch where
  \<comment> \<open>the fetch of \<open>demo_fetch\<close> for the files MANIFEST, base.txz and doc.txz, from a server
      of the user\<close>
  "demo_files = demo_fetch\<lparr>files := [''MANIFEST'', ''base.txz'', ''doc.txz''],
                            server := ''http://mirror'', root_dir := Some ''rel''\<rparr>"

definition demo_srv :: "string \<Rightarrow> event list \<Rightarrow> string \<Rightarrow> string option" where
  \<comment> \<open>a server with the manifest and \<open>base.txz\<close> in order, which answers every request
      for \<open>doc.txz\<close> with the bytes \<open>doc\<close>\<close>
  "demo_srv doc tr url =
     (if url = ''http://mirror/rel/11.2-RELEASE/MANIFEST'' then Some demo_manifest
      else if url = ''http://mirror/rel/11.2-RELEASE/base.txz'' then Some ''B''
      else if url = ''http://mirror/rel/11.2-RELEASE/doc.txz'' then Some doc
      else None)"

definition demo_empty :: world where
  \<comment> \<open>a host without the download dataset\<close>
  "demo_empty = \<lparr> dl = None, fs = Map.empty, dirs = {}, cwd = ''/'', trace = [] \<rparr>"

definition demo_archive :: "string \<Rightarrow> member list option" where
  \<comment> \<open>every file is an archive with one member\<close>
  "demo_archive bytes = Some [\<lparr>mname = ''./bin/sh'', mdata = bytes\<rparr>]"

definition demo_downloaded :: "string \<Rightarrow> world" where
  \<comment> \<open>the host after the first download from \<open>demo_srv doc\<close>\<close>
  "demo_downloaded doc =
     snd (fetch_download (demo_srv doc) demo_files (files demo_files) False demo_empty)"

definition demo_local :: fetch where
  \<comment> \<open>a fetch of 11.2-RELEASE from the local directory \<open>/mnt\<close>\<close>
  "demo_local = demo_fetch\<lparr>http := False, file_flag := True, root_dir := Some ''/mnt''\<rparr>"

definition demo_local_world :: world where
  \<comment> \<open>a host with the directory \<open>/mnt/11.2-RELEASE\<close>, which has \<open>base.txz\<close> and no MANIFEST,
      and without the download dataset\<close>
  "demo_local_world =
     \<lparr> dl = None, fs = [''/mnt/11.2-RELEASE/base.txz'' \<mapsto> ''B''], dirs = {''/mnt/11.2-RELEASE''},
       cwd = ''/root'', trace = [] \<rparr>"

definition demo_plugin :: plugin_conf where
  \<comment> \<open>a plugin with two repositories, the first with two fingerprints, and one kernel module\<close>
  "demo_plugin =
     \<lparr> pname = ''quassel'', pkgs = [''quassel-core''],
       fingerprints = [(''iocage-plugins'', [(''sha256'', ''aaaa''), (''sha256'', ''bbbb'')]),
                       (''extra'', [(''sha256'', ''cccc'')])],
       packagesite = ''http://pkg.example.org/site'', artifact = ''https://example.org/artifact.git'',
       kmods = [''fuse''] \<rparr>"

definition demo_env :: plugin_env where
  \<comment> \<open>a host on which every external call returns, the jail has an IPv4 address and the
      post-install script succeeds\<close>
  "demo_env =
     \<lparr> create_jail = Done (), ip4_addr = ''em0|10.0.0.2/24'', ip6_addr = ''none'', dhcp = ''off'',
       kldload = (\<lambda>k. Done ()), install_packages = Done False, clone_repository = Done (),
       has_post_install = True, exec_jail = Done (''done'', False) \<rparr>"

definition demo_env_no_kmod :: plugin_env where
  \<comment> \<open>the same host without the kernel module\<close>
  "demo_env_no_kmod = demo_env\<lparr>kldload := (\<lambda>k. Raise ''kldload: not found'')\<rparr>"

definition demo_env_no_address :: plugin_env where
  \<comment> \<open>the same host, the jail created without an address\<close>
  "demo_env_no_address = demo_env\<lparr>ip4_addr := ''none''\<rparr>"

definition demo_env_interrupt :: plugin_env where
  \<comment> \<open>the same host, the installation of the packages interrupted from the keyboard\<close>
  "demo_env_interrupt = demo_env\<lparr>install_packages := Interrupt\<rparr>"

section \<open>Properties\<close>

subsection \<open>Hardened lineage\<close>

lemma upper_char_idem: "upper_char (upper_char c) = upper_char c"
proof (cases "97 \<le> (of_char c :: nat) \<and> (of_char c :: nat) \<le> 122")
  case True
  then have "(of_char c - 32 :: nat) < 256" by arith
  then have "(of_char c - 32) mod 256 = (of_char c - 32 :: nat)" by (rule mod_less)
  with True show ?thesis by (auto simp add: upper_char_def Let_def)
next
  case False
  then show ?thesis by (auto simp add: upper_char_def Let_def)
qed

lemma upper_stable: "upper ''-stable'' = ''-STABLE''"
  by code_simp

text \<open>
  Claim C6. A fetch constructed with the hardened flag takes the HTTP branch of
  \<open>fetch_release\<close> whatever the \<open>http\<close> and \<open>_file\<close> arguments were, and a supplied
  (non-empty) release identifier becomes its first two characters followed by
  \<open>-STABLE\<close>, all in upper case.
\<close>

theorem hardened_selects_http_and_stable:
  "fetch_release_backend (init r0 srv au rd ht fl vfy True upd eo fls ioc pl ar) = NetworkedFileServer
   \<and> http (init r0 srv au rd ht fl vfy True upd eo fls ioc pl ar)
   \<and> release (init (Some (c # cs)) srv au rd ht fl vfy True upd eo fls ioc pl ar)
       = Some (upper (take 2 (c # cs)) @ ''-STABLE'')"
  using upper_stable
  by (simp add: fetch_release_backend_def init_def init_release_def truthy_def
      upper_def take_map upper_char_idem)

subsection \<open>Release selection\<close>

lemma length_lower: "length (lower s) = length s"
  by (simp add: lower_def)

lemma short_not_exit: "length s \<le> 2 \<Longrightarrow> lower s \<noteq> ''exit''"
proof
  assume a: "length s \<le> 2" and b: "lower s = ''exit''"
  have "length (lower s) = 4" by (simp add: b)
  with a show False by (simp add: length_lower)
qed

lemma py_int_minus_one: "py_int ''-1'' = Some (- 1)"
  by (simp add: py_int_def strip_def is_space_def digits_def is_digit_def)

lemma py_int_letters: "py_int ''ab'' = None"
  by (simp add: py_int_def strip_def is_space_def digits_def is_digit_def)

lemma lower_100: "lower ''100'' \<noteq> ''exit''"
  by code_simp

text \<open>
  Claim C8, as amended. The exit command is recognised in any letter case. Every other
  input of more than two characters is looked up by name in the list, also when it is a
  number; an input of at most two characters that \<open>int\<close> accepts is an index into the list,
  also when the list holds it as a name; an input of at most two characters that \<open>int\<close>
  rejects is treated exactly as the empty input (the host's release), so it is never
  matched by name.
\<close>

theorem validate_release_dispatch:
  assumes "length s \<le> 2" and "py_int s = Some i"
    and "length n \<le> 2" and "py_int n = None"
    and "length l > 2" and "lower l \<noteq> ''exit''"
  shows "fetch_validate_release s hard uname releases =
           (case py_index releases i of
              Some r \<Rightarrow> Inr (r, hard)
            | None \<Rightarrow> Inl (Fatal (''['' @ s @ ''] is not in the list!'')))
       \<and> fetch_validate_release n hard uname releases =
           fetch_validate_release [] hard uname releases
       \<and> fetch_validate_release l hard uname releases =
           (if l \<in> set releases then Inr (l, hard) else Inl FatalValueError)"
proof (intro conjI)
  show "fetch_validate_release s hard uname releases =
           (case py_index releases i of
              Some r \<Rightarrow> Inr (r, hard)
            | None \<Rightarrow> Inl (Fatal (''['' @ s @ ''] is not in the list!'')))"
    using assms(1,2) short_not_exit [OF assms(1)] by (simp add: fetch_validate_release_def)
  have e: "py_int [] = None" by (simp add: py_int_def strip_def)
  have "lower [] \<noteq> ''exit''" by (simp add: lower_def)
  then show "fetch_validate_release n hard uname releases =
           fetch_validate_release [] hard uname releases"
    using assms(3,4) short_not_exit [OF assms(3)] e by (simp add: fetch_validate_release_def)
  show "fetch_validate_release l hard uname releases =
           (if l \<in> set releases then Inr (l, hard) else Inl FatalValueError)"
    using assms(5,6) by (simp add: fetch_validate_release_def)
qed

theorem validate_release_dispatch_witness:
  "fetch_validate_release ''-1'' False ''11.2-RELEASE-p4'' [''10.4-RELEASE'', ''11.2-RELEASE'', ''ab'']
     = Inr (''ab'', False) \<and>
   fetch_validate_release ''ab'' False ''11.2-RELEASE-p4'' [''10.4-RELEASE'', ''11.2-RELEASE'', ''ab'']
     = fetch_validate_release [] False ''11.2-RELEASE-p4'' [''10.4-RELEASE'', ''11.2-RELEASE'', ''ab''] \<and>
   fetch_validate_release ''100'' False ''11.2-RELEASE-p4'' [''10.4-RELEASE'', ''11.2-RELEASE'', ''ab'']
     = Inl FatalValueError"
proof -
  have h1: "length ''-1'' \<le> 2" by simp
  have h3: "length ''ab'' \<le> 2" by simp
  have h5: "length ''100'' > 2" by simp
  have ix: "py_index [''10.4-RELEASE'', ''11.2-RELEASE'', ''ab''] (-1) = Some ''ab''"
    by (simp add: py_index_def)
  note inst = validate_release_dispatch [OF h1 py_int_minus_one h3 py_int_letters h5 lower_100,
      of False "''11.2-RELEASE-p4''" "[''10.4-RELEASE'', ''11.2-RELEASE'', ''ab'']"]
  show ?thesis
    apply (intro conjI)
    subgoal using inst ix by simp
    subgoal using inst by simp
    subgoal using inst by simp
    done
qed

text \<open>
  The claim as written excepts only the literal \<open>exit\<close>: the input \<open>EXIT\<close> is longer than
  two characters and is not that literal, yet it is not looked up in the list.
\<close>

theorem validate_release_exit_counterexample:
  "''EXIT'' \<noteq> ''exit'' \<and> 2 < length ''EXIT'' \<and>
   fetch_validate_release ''EXIT'' False ''11.2-RELEASE-p4'' [''11.2-RELEASE''] = Inl (SystemExit 0) \<and>
   fetch_validate_release ''EXIT'' False ''11.2-RELEASE-p4'' [''11.2-RELEASE'']
     \<noteq> (if ''EXIT'' \<in> set [''11.2-RELEASE''] then Inr (''EXIT'', False) else Inl FatalValueError)"
  by code_simp

subsection \<open>Archive extraction\<close>

lemma startswith_Nil [simp]: "startswith s []"
  by (simp add: startswith_def)

lemma startswith_Cons [simp]: "startswith (x # xs) (y # ys) = (x = y \<and> startswith xs ys)"
  by (auto simp add: startswith_def)

lemma startswith_Nil_left [simp]: "startswith [] p = (p = [])"
  by (auto simp add: startswith_def)

lemma contains_Nil [simp]: "contains [] s"
  by (cases s) simp_all

lemma split_sep_not_Nil [simp]: "split_sep c s \<noteq> []"
  by (induction s) (auto split: list.splits)

lemma fetch_check_members_trace:
  "trace (snd (fetch_check_members ms w)) =
     trace w @ map (\<lambda>m. Logit WARNING (mname m @ '' is not a relative file, skipping ''))
                 (filter (\<lambda>m. mname m \<noteq> ''.'' \<and> not_relative (mname m)) ms)"
  by (induction ms arbitrary: w) (simp_all add: split_beta emit_def)

lemma os_remove_frame [simp]:
  "cwd (os_remove p w) = cwd w" "dl (os_remove p w) = dl w" "trace (os_remove p w) = trace w"
  "dirs (os_remove p w) = dirs w"
  by (simp_all add: os_remove_def split: option.splits)

lemma fetch_extract_remove_cwd [simp]: "cwd (fetch_extract_remove c ms w) = cwd w"
  by (induction ms arbitrary: w) simp_all

lemma extractall_cwd [simp]: "cwd (extractall path ms w) = cwd w"
  by (induction ms arbitrary: w) simp_all

lemma ensure_release_dataset_frame [simp]:
  "dl (ensure_release_dataset c w) = dl w"
  "fs (ensure_release_dataset c w) = fs w"
  "cwd (ensure_release_dataset c w) = cwd w"
  by (simp_all add: ensure_release_dataset_def emit_def Let_def)

lemma emit_frame [simp]:
  "dl (emit e w) = dl w" "fs (emit e w) = fs w" "cwd (emit e w) = cwd w" "dirs (emit e w) = dirs w"
  "trace (emit e w) = trace w @ [e]"
  by (simp_all add: emit_def)

text \<open>
  Claim C1. An archive with a member whose target lies outside the destination is to be
  refused with an error before anything is written. Two archives that the code can be
  given are run here, for the release 11.2-RELEASE under \<open>/iocage\<close>, whose destination is
  \<open>/iocage/releases/11.2-RELEASE/root\<close>. The member \<open>../root2/x\<close> has its target in the
  directory \<open>root2\<close> next to the destination, and \<open>fetch_extract\<close> returns without an error:
  the test compares the two paths character by character, and \<open>root2\<close> begins with \<open>root\<close>.
  The member \<open>../../etc/passwd\<close> is refused with the error, but the file
  \<open>/iocage/releases/etc/passwd\<close>, there before the call, is gone after it: the pass that
  removes the files of the members runs before the test.
\<close>

theorem extraction_path_traversal:
  "abspath (cwd demo_world) (path_join (release_root demo_fetch) ''../root2/x'')
     = ''/iocage/releases/11.2-RELEASE/root2/x''
   \<and> abspath (cwd demo_world) (release_root demo_fetch) = ''/iocage/releases/11.2-RELEASE/root''
   \<and> fst (fetch_extract (demo_untar [\<lparr>mname = ''../root2/x'', mdata = ''X''\<rparr>])
          demo_fetch ''base.txz'' demo_world) = Inr ()
   \<and> fs demo_world ''/iocage/releases/etc/passwd'' = Some ''root''
   \<and> fst (fetch_extract (demo_untar [\<lparr>mname = ''../../etc/passwd'', mdata = ''X''\<rparr>])
          demo_fetch ''base.txz'' demo_world) = Inl PathTraversal
   \<and> fs (snd (fetch_extract (demo_untar [\<lparr>mname = ''../../etc/passwd'', mdata = ''X''\<rparr>])
          demo_fetch ''base.txz'' demo_world)) ''/iocage/releases/etc/passwd'' = None"
  by code_simp

subsection \<open>Verification of the downloaded files\<close>


lemma tar_opens_append [simp]: "tar_opens (xs @ ys) = tar_opens xs @ tar_opens ys"
  by (induction xs rule: tar_opens.induct) simp_all

lemma attempts_append [simp]: "attempts url (xs @ ys) = attempts url xs + attempts url ys"
  by (simp add: attempts_def)

lemma attempts_Nil [simp]: "attempts url [] = 0"
  by (simp add: attempts_def)

lemma attempts_Cons: "attempts url (e # es) = (if e = HttpGet url then 1 else 0) + attempts url es"
  by (simp add: attempts_def)

lemma warnings_no_effect [simp]:
  "attempts url (map (\<lambda>m. Logit l (g m)) xs) = 0" "tar_opens (map (\<lambda>m. Logit l (g m)) xs) = []"
  by (induction xs) (simp_all add: attempts_Cons)

lemma ensure_release_dataset_trace:
  "\<exists>zs. trace (ensure_release_dataset c w) = trace w @ zs \<and> attempts url zs = 0 \<and> tar_opens zs = []"
  by (simp add: ensure_release_dataset_def Let_def attempts_Cons)

lemma fetch_extract_remove_frame [simp]:
  "trace (fetch_extract_remove c ms w) = trace w" "dl (fetch_extract_remove c ms w) = dl w"
  by (induction ms arbitrary: w) simp_all

lemma extractall_frame [simp]:
  "trace (extractall p ms w) = trace w" "dl (extractall p ms w) = dl w"
  by (induction ms arbitrary: w) simp_all

lemma fetch_check_members_dl [simp]: "dl (snd (fetch_check_members ms w)) = dl w"
  by (induction ms arbitrary: w) (simp_all add: split_beta)

lemma safe_extract_frame:
  "dl (snd (safe_extract tms p ms w)) = dl w" "trace (snd (safe_extract tms p ms w)) = trace w"
  by (simp_all add: safe_extract_def)

lemma fetch_extract_dl [simp]: "dl (snd (fetch_extract untar c f w)) = dl w"
  by (simp add: fetch_extract_def Let_def split_beta safe_extract_frame split: option.splits)

lemma fetch_extract_trace:
  "\<exists>evs. trace (snd (fetch_extract untar c f w)) = trace w @ evs \<and> attempts url evs = 0
     \<and> (fst (fetch_extract untar c f w) = Inr () \<longrightarrow> tar_opens evs = [archive_path c f])"
proof -
  obtain zs where zs: "trace (ensure_release_dataset c w) = trace w @ zs" "attempts url zs = 0"
      "tar_opens zs = []"
    using ensure_release_dataset_trace by blast
  show ?thesis
  proof (cases "case dl w of None \<Rightarrow> None | Some d \<Rightarrow> d f")
    case None
    then show ?thesis using zs by (simp add: fetch_extract_def Let_def)
  next
    case (Some bytes)
    show ?thesis
    proof (cases "untar bytes")
      case None
      with Some show ?thesis using zs by (simp add: fetch_extract_def Let_def)
    next
      case (Some ms)
      with \<open>(case dl w of None \<Rightarrow> None | Some d \<Rightarrow> d f) = Some bytes\<close> show ?thesis using zs
        by (simp add: fetch_extract_def Let_def split_beta safe_extract_frame
            fetch_check_members_trace attempts_Cons archive_path_def)
    qed
  qed
qed

lemma verify_file_cases:
  assumes "verify_file sha hashes list retry f missing w = (Inr m', w')"
  shows "(m' = missing \<and> w' = w) \<or>
         (m' = missing @ [f] \<and> (\<exists>msg. w' = emit (Logit WARNING msg) w))"
  using assms by (auto simp: verify_file_def split: if_splits option.splits)

lemma refetch_manifest_tar:
  "refetch_manifest srv c w = (r, w2) \<Longrightarrow> tar_opens (trace w2) = tar_opens (trace w)"
  by (auto simp: refetch_manifest_def write_dl_def emit_def split: if_splits option.splits)

lemma result_eqI: "fst x = Inr v \<Longrightarrow> x = (Inr v, snd x)"
  by (cases x) simp


subsection \<open>A present file without a manifest\<close>

lemma check_files_keyerror:
  assumes "dl w = Some d" and "f \<in> set fls" and "checked c f" and "f \<in> set list"
    and "d f \<noteq> None" and "missing \<noteq> []"
  shows "\<exists>g w'. check_files sha untar c Map.empty list False fls missing w = (Inl (KeyError g), w')
           \<and> g \<in> set fls \<and> d g \<noteq> None"
  using assms
proof (induction fls arbitrary: missing w)
  case Nil
  then show ?case by simp
next
  case (Cons g fls)
  show ?case
  proof (cases "checked c g")
    case False
    with Cons.prems have "f \<in> set fls" by auto
    from Cons.IH [OF Cons.prems(1) this Cons.prems(3-6)] False
    show ?thesis by (auto simp: checked_def)
  next
    case True
    note chk = this
    show ?thesis
    proof (cases "g \<in> set list \<and> d g \<noteq> None")
      case True
      then have "verify_file sha Map.empty list False g missing w = (Inl (KeyError g), w)"
        using Cons.prems(1) by (auto simp: verify_file_def)
      then show ?thesis using chk True by (auto simp: checked_def)
    next
      case False
      with Cons.prems have fin: "f \<in> set fls" by auto
      obtain m' w1 where v: "verify_file sha Map.empty list False g missing w = (Inr m', w1)"
        and m': "m' \<noteq> []" and d1: "dl w1 = Some d"
        using False Cons.prems(1,6)
        by (cases "g \<in> set list") (auto simp: verify_file_def emit_def)
      from Cons.IH [OF d1 fin Cons.prems(3,4,5) m'] v m' chk
      show ?thesis by (auto simp: checked_def)
    qed
  qed
qed

lemma refetch_manifest_other_server:
  "server c \<noteq> ''https://download.freebsd.org'' \<Longrightarrow> refetch_manifest srv c w = (Inr (), w)"
  by (simp add: refetch_manifest_def)

text \<open>
  Claim C10. On the first pass (\<open>_missing\<close> is \<open>False\<close>), when the download directory has no
  MANIFEST, the server is not the canonical one (so the file is not refetched) and one of
  the files to verify is on disk, \<open>__fetch_check__\<close> ends in a KeyError for a file that is
  on disk: the digest is looked up in the empty map, and nothing catches the error.
\<close>

theorem absent_manifest_raises_keyerror:
  assumes "dl w = Some d" and "d ''MANIFEST'' = None"
    and "server c \<noteq> ''https://download.freebsd.org''"
    and "f \<in> set (files c)" and "f \<noteq> ''MANIFEST''" and "\<not> (hardened c \<and> f = ''lib32.txz'')"
    and "f \<in> set list" and "d f \<noteq> None"
  shows "\<exists>g w'. fetch_check srv sha untar c list False w = (Inl (KeyError g), w')
           \<and> g \<in> set (files c) \<and> d g \<noteq> None"
proof -
  let ?w1 = "w\<lparr>cwd := dl_path c\<rparr>"
  have d1: "dl ?w1 = Some d" using assms(1) by simp
  have chk: "checked c f" using assms(5,6) by (simp add: checked_def)
  have ne: "[''MANIFEST''] \<noteq> []" by simp
  from check_files_keyerror [OF d1 assms(4) chk assms(7,8) ne, of sha untar]
  obtain g w' where g: "check_files sha untar c Map.empty list False (files c) [''MANIFEST''] ?w1
      = (Inl (KeyError g), w')" "g \<in> set (files c)" "d g \<noteq> None"
    by blast
  have "fetch_check srv sha untar c list False w = (Inl (KeyError g), w')"
    using assms(1,2) g(1) refetch_manifest_other_server [OF assms(3)]
    by (simp add: fetch_check_def andthen_def)
  with g show ?thesis by blast
qed

theorem absent_manifest_raises_keyerror_witness:
  "\<exists>g w'. fetch_check (demo_srv ''D'') demo_sha demo_archive demo_files (files demo_files) False demo_world
      = (Inl (KeyError g), w')"
proof -
  have h1: "dl demo_world = Some [''base.txz'' \<mapsto> ''B'']" by (simp add: demo_world_def)
  have h2: "[''base.txz'' \<mapsto> ''B''] ''MANIFEST'' = None" by simp
  have h3: "server demo_files \<noteq> ''https://download.freebsd.org''" by (simp add: demo_files_def)
  have h4: "''base.txz'' \<in> set (files demo_files)" by (simp add: demo_files_def)
  have h5: "''base.txz'' \<noteq> ''MANIFEST''" by simp
  have h6: "\<not> (hardened demo_files \<and> ''base.txz'' = ''lib32.txz'')" by simp
  have h8: "[''base.txz'' \<mapsto> ''B''] ''base.txz'' \<noteq> None" by simp
  from absent_manifest_raises_keyerror [OF h1 h2 h3 h4 h5 h6 h4 h8, of "demo_srv ''D''" demo_sha demo_archive]
  show ?thesis by blast
qed


subsection \<open>Which files a pass extracts\<close>

lemma check_files_extracted:
  assumes "distinct fls"
    and "check_files sha untar c hashes list retry fls missing w = (Inr m, w')"
  shows "(\<exists>rest. m = missing @ rest \<and> set rest \<subseteq> {g \<in> set fls. checked c g})
       \<and> tar_opens (trace w') = tar_opens (trace w) @
           (if missing \<noteq> [] then []
            else map (archive_path c) (takeWhile (\<lambda>g. g \<notin> set m) (filter (checked c) fls)))"
  using assms
proof (induction fls arbitrary: missing w)
  case Nil
  then show ?case by simp
next
  case (Cons f fls)
  from Cons.prems(1) have dis: "distinct fls" and nf: "f \<notin> set fls" by simp_all
  show ?case
  proof (cases "checked c f")
    case False
    then have "check_files sha untar c hashes list retry fls missing w = (Inr m, w')"
      using Cons.prems(2) by (auto simp: checked_def)
    from Cons.IH [OF dis this] False show ?thesis by auto
  next
    case True
    then have nskip: "f \<noteq> ''MANIFEST''" "\<not> (hardened c \<and> f = ''lib32.txz'')"
      by (simp_all add: checked_def)
    obtain r w1 where v: "verify_file sha hashes list retry f missing w = (r, w1)"
      by (cases "verify_file sha hashes list retry f missing w")
    with Cons.prems(2) nskip obtain m1 where r: "r = Inr m1"
      by (cases r) auto
    note v = v [unfolded r]
    from verify_file_cases [OF v] have m1: "m1 = missing \<or> m1 = missing @ [f]"
      and t1: "tar_opens (trace w1) = tar_opens (trace w)"
      by (auto simp: emit_def)
    show ?thesis
    proof (cases "m1 = []")
      case True
      then have mis: "missing = []" using m1 by auto
      let ?w1 = "emit (Logit INFO (''Extracting: '' @ f @ ''... '')) w1"
      obtain r2 w2 where x: "fetch_extract untar c f ?w1 = (r2, w2)"
        by (cases "fetch_extract untar c f ?w1")
      with Cons.prems(2) nskip v True have r2: "r2 = Inr ()"
        by (cases r2) auto
      have rec: "check_files sha untar c hashes list retry fls [] w2 = (Inr m, w')"
        using Cons.prems(2) nskip v True x r2 by simp
      from fetch_extract_trace [of untar c f ?w1 "[]"] x r2
      obtain evs where "trace w2 = trace ?w1 @ evs" "tar_opens evs = [archive_path c f]"
        by auto
      then have t2: "tar_opens (trace w2) = tar_opens (trace w) @ [archive_path c f]"
        using t1 by simp
      from Cons.IH [OF dis rec] obtain rest where rest: "m = [] @ rest"
          "set rest \<subseteq> {g \<in> set fls. checked c g}"
        and t: "tar_opens (trace w') = tar_opens (trace w2) @
            map (archive_path c) (takeWhile (\<lambda>g. g \<notin> set m) (filter (checked c) fls))"
        by auto
      have "f \<notin> set m" using rest nf by auto
      then show ?thesis using rest t t2 mis \<open>checked c f\<close> by auto
    next
      case False
      have rec: "check_files sha untar c hashes list retry fls m1 w1 = (Inr m, w')"
        using Cons.prems(2) nskip v False by simp
      from Cons.IH [OF dis rec] False obtain rest where rest: "m = m1 @ rest"
          "set rest \<subseteq> {g \<in> set fls. checked c g}"
        and t: "tar_opens (trace w') = tar_opens (trace w1)"
        by auto
      show ?thesis
      proof (cases "missing = []")
        case True
        with m1 False have "m1 = [f]" by auto
        with rest have "f \<in> set m" by simp
        then show ?thesis using rest t t1 True \<open>m1 = [f]\<close> \<open>checked c f\<close> by auto
      next
        case False
        from m1 rest obtain rest' where "m = missing @ rest'"
            "set rest' \<subseteq> {g \<in> set (f # fls). checked c g}"
          using \<open>checked c f\<close> by (cases "m1 = missing") auto
        then show ?thesis using t t1 False by auto
      qed
    qed
  qed
qed

lemma demo_first_pass:
  "fst (fetch_check (demo_srv ''X'') demo_sha demo_archive demo_files (files demo_files) False
     (demo_downloaded ''X'')) = Inr (Some [''doc.txz''])"
  by code_simp

text \<open>
  Claim C5, as amended. In a verification pass that returns, the archives opened for
  extraction are exactly those of the files that come, in the order of the file set,
  before the first file the pass classifies as missing, and none at all when MANIFEST is
  missing. So a file is extracted only while the missing list is still empty, and the
  files before the first missing one are extracted although the pass then reports a
  missing set that is not empty.
\<close>

theorem extraction_stops_at_first_missing:
  assumes "distinct (files c)"
    and "fetch_check srv sha untar c list retry w = (Inr (Some m), w')"
  shows "tar_opens (trace w') = tar_opens (trace w) @
           (if ''MANIFEST'' \<in> set m then []
            else map (archive_path c) (takeWhile (\<lambda>g. g \<notin> set m) (filter (checked c) (files c))))"
proof -
  obtain d where d: "dl w = Some d"
    using assms(2) by (cases "dl w") (auto simp: fetch_check_def)
  obtain r w2 where rf: "refetch_manifest srv c (w\<lparr>cwd := dl_path c\<rparr>) = (r, w2)"
    by (cases "refetch_manifest srv c (w\<lparr>cwd := dl_path c\<rparr>)")
  have t2: "tar_opens (trace w2) = tar_opens (trace w)"
    using refetch_manifest_tar [OF rf] by simp
  from assms(2) d rf have r: "r = Inr ()"
    by (cases r) (auto simp: fetch_check_def andthen_def)
  show ?thesis
  proof (cases "case dl w2 of None \<Rightarrow> None | Some d2 \<Rightarrow> d2 ''MANIFEST''")
    case None
    with assms(2) d rf r
    have "check_files sha untar c Map.empty list retry (files c) [''MANIFEST''] w2 = (Inr m, w')"
      by (auto simp: fetch_check_def andthen_def split: prod.splits sum.splits)
    from check_files_extracted [OF assms(1) this] show ?thesis using t2 by auto
  next
    case (Some mtext)
    with assms(2) d rf r obtain hashes where
      "check_files sha untar c hashes list retry (files c) [] w2 = (Inr m, w')"
      by (auto simp: fetch_check_def andthen_def split: prod.splits sum.splits)
    from check_files_extracted [OF assms(1) this]
    have m: "set m \<subseteq> {g \<in> set (files c). checked c g}"
      and t: "tar_opens (trace w') = tar_opens (trace w2) @
           map (archive_path c) (takeWhile (\<lambda>g. g \<notin> set m) (filter (checked c) (files c)))"
      by auto
    from m have "''MANIFEST'' \<notin> set m" by (auto simp: checked_def)
    then show ?thesis using t t2 by simp
  qed
qed

theorem extraction_stops_at_first_missing_witness:
  "tar_opens (trace (snd (fetch_check (demo_srv ''X'') demo_sha demo_archive demo_files
      (files demo_files) False (demo_downloaded ''X''))))
   = tar_opens (trace (demo_downloaded ''X'')) @ [archive_path demo_files ''base.txz'']"
proof -
  have h1: "distinct (files demo_files)" by (simp add: demo_files_def)
  have c1: "checked demo_files ''base.txz''" "checked demo_files ''doc.txz''"
    "\<not> checked demo_files ''MANIFEST''"
    by (simp_all add: checked_def)
  have f: "files demo_files = [''MANIFEST'', ''base.txz'', ''doc.txz'']" by (simp add: demo_files_def)
  from extraction_stops_at_first_missing [OF h1 result_eqI [OF demo_first_pass]]
  show ?thesis using c1 by (simp add: f)
qed

text \<open>
  The claim as written has extraction wait for a pass that reports an empty missing set.
  Here the first pass reports that \<open>doc.txz\<close> is missing, and it has extracted \<open>base.txz\<close>.
\<close>

theorem extraction_before_report_counterexample:
  "fst (fetch_check (demo_srv ''X'') demo_sha demo_archive demo_files (files demo_files) False
     (demo_downloaded ''X'')) = Inr (Some [''doc.txz''])
   \<and> tar_opens (trace (demo_downloaded ''X'')) = []
   \<and> tar_opens (trace (snd (fetch_check (demo_srv ''X'') demo_sha demo_archive demo_files
        (files demo_files) False (demo_downloaded ''X''))))
      = [''/iocage/download/11.2-RELEASE/base.txz'']"
  by code_simp


subsection \<open>The retry round\<close>



declare check_files.simps(2) [simp del]

lemma file_url_inj: "file_url c f = file_url c g \<Longrightarrow> f = g"
  by (simp add: file_url_def split: if_splits)

lemma file_url_eq [simp]: "(file_url c f = file_url c g) = (f = g)"
  using file_url_inj by blast

lemma attempts_single [simp]: "attempts url [e] = (if e = HttpGet url then 1 else 0)"
  by (simp add: attempts_def)


lemma write_dl_frame [simp]: "trace (write_dl f b w) = trace w" "cwd (write_dl f b w) = cwd w"
  by (simp_all add: write_dl_def)






























subsection \<open>Fetch from a local directory\<close>

lemma copy_files_append:
  "copy_files untar c (pre @ post) w =
     (case copy_files untar c pre w of
        (Inl e, w') \<Rightarrow> (Inl e, w')
      | (Inr u, w') \<Rightarrow> copy_files untar c post w')"
  by (induction pre arbitrary: w) (auto simp: Let_def split: option.splits prod.splits sum.splits)

text \<open>
  Claim C4, as amended. In a fetch from a local directory, when the loop over the file set
  reaches a file that is not in \<open>root_dir/release\<close>, the fetch fails with the message that
  names that file and the directory \<open>root_dir/release\<close>. Before the loop started the
  download dataset had been created and mounted if its directory was absent; at the
  failure the dataset is unmounted and deleted, so no download directory of the release
  is left.
\<close>

theorem missing_local_file:
  assumes "root_dir c = Some rd" and "rd \<noteq> []" and "release c = Some r"
    and "local_dir c \<in> dirs w"
    and "files c = pre @ f # post"
    and "copy_files untar c pre (enter_local_dir c w) = (Inr (), w2)"
    and "fs w2 (abspath (cwd w2) f) = None"
  shows "fst (fetch_release_file untar c w) =
           Inl (Fatal ((if f = ''MANIFEST'' then f else f @ ''.txz'') @ '' is a required file!''
                       @ [CHR 0x0A] @ ''Please place it in '' @ rd @ ''/'' @ r))
       \<and> trace (snd (fetch_release_file untar c w)) =
           trace w2 @ [ZfsUnmount (pool c @ dl_path c), ZfsDelete (pool c @ dl_path c)]
       \<and> dl (snd (fetch_release_file untar c w)) = None
       \<and> (dl w = None \<longrightarrow>
            trace (enter_local_dir c w) = trace w @ [ZfsCreate (dl_path c), ZfsMount (dl_path c)])"
proof -
  have run: "fetch_release_file untar c w =
      (Inl (Fatal (required_file_error c f)),
       emit (ZfsDelete (pool c @ dl_path c)) (emit (ZfsUnmount (pool c @ dl_path c)) (w2\<lparr>dl := None\<rparr>)))"
    using assms by (simp add: fetch_release_file_def truthy_def copy_files_append)
  have msg: "required_file_error c f =
      (if f = ''MANIFEST'' then f else f @ ''.txz'') @ '' is a required file!''
                       @ [CHR 0x0A] @ ''Please place it in '' @ rd @ ''/'' @ r"
    using assms(1,3) by (simp add: required_file_error_def rdir_def rel_def)
  show ?thesis
    using run msg by (simp add: enter_local_dir_def)
qed


theorem missing_local_file_witness:
  "fst (fetch_release_file demo_archive demo_local demo_local_world) =
     Inl (Fatal (''MANIFEST is a required file!'' @ [CHR 0x0A] @ ''Please place it in /mnt/11.2-RELEASE''))
   \<and> dl (snd (fetch_release_file demo_archive demo_local demo_local_world)) = None"
proof -
  have h1: "root_dir demo_local = Some ''/mnt''" by (simp add: demo_local_def)
  have h2: "''/mnt'' \<noteq> []" by simp
  have h3: "release demo_local = Some ''11.2-RELEASE''" by code_simp
  have h4: "local_dir demo_local \<in> dirs demo_local_world" by code_simp
  have h5: "files demo_local = [] @ ''MANIFEST'' # [''base.txz'', ''lib32.txz'', ''doc.txz'']"
    by (simp add: demo_local_def demo_fetch_def init_def)
  have h6: "copy_files demo_archive demo_local [] (enter_local_dir demo_local demo_local_world)
      = (Inr (), enter_local_dir demo_local demo_local_world)" by simp
  have h7: "fs (enter_local_dir demo_local demo_local_world)
      (abspath (cwd (enter_local_dir demo_local demo_local_world)) ''MANIFEST'') = None"
    by code_simp
  from missing_local_file [OF h1 h2 h3 h4 h5 h6 h7]
  show ?thesis by simp
qed

text \<open>
  The claim as written has the failure come before any download dataset is created. With
  MANIFEST absent and no download dataset at the start, the dataset is created, mounted,
  unmounted and deleted before the error is reported.
\<close>

theorem missing_local_file_counterexample:
  "fst (fetch_release_file demo_archive demo_local demo_local_world) =
     Inl (Fatal (''MANIFEST is a required file!'' @ [CHR 0x0A] @ ''Please place it in /mnt/11.2-RELEASE''))
   \<and> trace demo_local_world = []
   \<and> trace (snd (fetch_release_file demo_archive demo_local demo_local_world)) =
       [ZfsCreate ''/iocage/download/11.2-RELEASE'', ZfsMount ''/iocage/download/11.2-RELEASE'',
        ZfsUnmount ''zroot/iocage/download/11.2-RELEASE'', ZfsDelete ''zroot/iocage/download/11.2-RELEASE'']"
  by code_simp


subsection \<open>Properties of a plugin\<close>

lemma split_sep_length: "length (split_sep c s) = Suc (count_list s c)"
  by (induction s) (auto split: list.splits)

lemma join_split: "join_sep [c] (split_sep c s) = s"
proof (induction s)
  case Nil
  show ?case by simp
next
  case (Cons x s)
  obtain w ws where ws: "split_sep c s = w # ws" by (cases "split_sep c s") simp_all
  with Cons show ?case by (cases ws) auto
qed

lemma split_two: "split_sep c s = [k, v] \<Longrightarrow> k @ [c] @ v = s"
  using join_split [of c s] by simp

lemma split_sep_hd_no_sep: "c \<notin> set (hd (split_sep c s))"
  by (induction s) (auto split: list.splits)

lemma prop_key_no_eq: "CHR ''='' \<notin> set (prop_key x)"
  by (simp add: prop_key_def split_sep_hd_no_sep)

lemma split_sep_hd_append: "c \<notin> set p \<Longrightarrow> hd (split_sep c (p @ c # v)) = p"
  by (induction p) (auto split: list.splits)

lemma prop_key_fmt: "CHR ''='' \<notin> set p \<Longrightarrow> prop_key (p @ CHR ''='' # v) = p"
  by (simp add: prop_key_def split_sep_hd_append)

lemma format_props_Inr:
  "format_props ps = Inr qs \<Longrightarrow> qs = ps \<and> (\<forall>x \<in> set ps. length (split_sep CHR ''='' x) = 2)"
proof (induction ps arbitrary: qs)
  case Nil
  then show ?case by simp
next
  case (Cons p ps)
  from Cons.prems obtain k v rest where s: "split_sep CHR ''='' p = [k, v]"
    and r: "format_props ps = Inr rest" and q: "qs = (k @ ''='' @ v) # rest"
    by (auto split: list.splits sum.splits)
  from split_two [OF s] have "k @ ''='' @ v = p" by simp
  with Cons.IH [OF r] s q show ?case by simp
qed

lemma merge_json_props_keeps: "set props \<subseteq> set (merge_json_props js props)"
proof (induction js arbitrary: props)
  case Nil
  show ?case by simp
next
  case (Cons a js)
  obtain p v where a: "a = (p, v)" by (cases a)
  show ?case using Cons [of "props @ [p @ ''='' @ v]"] Cons [of props] by (auto simp: a)
qed

lemma merge_json_props_bad_key:
  assumes "(p, v) \<in> set js" and "CHR ''='' \<in> set p"
  shows "p @ ''='' @ v \<in> set (merge_json_props js props)"
  using assms(1)
proof (induction js arbitrary: props)
  case Nil
  then show ?case by simp
next
  case (Cons a js)
  obtain q u where a: "a = (q, u)" by (cases a)
  show ?case
  proof (cases "(p, v) = (q, u)")
    case True
    have "p \<notin> set (map prop_key props)" using prop_key_no_eq assms(2) by auto
    then have "merge_json_props (a # js) props = merge_json_props js (props @ [p @ ''='' @ v])"
      using True a by simp
    then show ?thesis using merge_json_props_keeps [of "props @ [p @ ''='' @ v]" js] by auto
  next
    case False
    with Cons.prems a have "(p, v) \<in> set js" by auto
    from Cons.IH [OF this] show ?thesis by (simp add: a)
  qed
qed

lemma merge_json_props_plain:
  assumes "distinct (map fst js)" and "\<forall>(p, v) \<in> set js. CHR ''='' \<notin> set p"
  shows "merge_json_props js props =
           props @ map (\<lambda>(p, v). p @ ''='' @ v)
                     (filter (\<lambda>(p, v). p \<notin> set (map prop_key props)) js)"
  using assms
proof (induction js arbitrary: props)
  case Nil
  show ?case by simp
next
  case (Cons a js)
  obtain p v where a: "a = (p, v)" by (cases a)
  from Cons.prems a have dis: "distinct (map fst js)" and pn: "p \<notin> fst ` set js"
    and ok: "\<forall>(p, v) \<in> set js. CHR ''='' \<notin> set p" and pk: "CHR ''='' \<notin> set p"
    by auto
  show ?case
  proof (cases "p \<in> set (map prop_key props)")
    case True
    with Cons.IH [OF dis ok, of props] show ?thesis by (simp add: a)
  next
    case False
    have same: "filter (\<lambda>(q, u). q \<notin> set (map prop_key (props @ [p @ ''='' @ v]))) js
                = filter (\<lambda>(q, u). q \<notin> set (map prop_key props)) js"
      using pn by (intro filter_cong) (auto simp: prop_key_fmt [OF pk] image_iff)
    from Cons.IH [OF dis ok, of "props @ [p @ ''='' @ v]"] False same
    show ?thesis by (simp add: a)
  qed
qed

text \<open>
  Claim C7. Whenever \<open>__fetch_plugin_props__\<close> returns, the list it returns starts with the
  caller's properties, unchanged and in their order; then come the properties of the
  descriptor whose key is not the key of a caller's property, in the descriptor's order;
  a property of the descriptor whose key a caller's property has is left out. (The four
  properties the function sets itself come last.) The keys of the descriptor are those of
  a dictionary, hence distinct.
\<close>

theorem caller_props_take_precedence:
  assumes "distinct (map fst json_props)"
    and "fetch_plugin_props json_props props cloned userland = Inr create_props"
  shows "create_props =
           props
           @ map (\<lambda>(p, v). p @ ''='' @ v)
               (filter (\<lambda>(p, v). p \<notin> set (map prop_key props)) json_props)
           @ [''cloned_release='' @ cloned, ''release='' @ userland, ''type=plugin'', ''boot=on'']"
proof -
  from assms(2) obtain ps where f: "format_props (merge_json_props json_props props) = Inr ps"
    and cp: "create_props = ps @ [''cloned_release='' @ cloned, ''release='' @ userland, ''type=plugin'', ''boot=on'']"
    by (auto simp: fetch_plugin_props_def split: sum.splits)
  from format_props_Inr [OF f] have ps: "ps = merge_json_props json_props props"
    and two: "\<forall>x \<in> set (merge_json_props json_props props). length (split_sep CHR ''='' x) = 2"
    by simp_all
  have ok: "\<forall>(p, v) \<in> set json_props. CHR ''='' \<notin> set p"
  proof (intro ballI, clarify)
    fix p v assume in_js: "(p, v) \<in> set json_props" and bad: "CHR ''='' \<in> set p"
    from merge_json_props_bad_key [OF in_js bad, of props] two
    have "length (split_sep CHR ''='' (p @ ''='' @ v)) = 2" by blast
    then have "count_list (p @ ''='' @ v) CHR ''='' = 1" by (simp add: split_sep_length)
    moreover have "count_list p CHR ''='' \<noteq> 0" using bad by (simp add: count_list_0_iff)
    ultimately show False by simp
  qed
  from merge_json_props_plain [OF assms(1) ok, of props] ps cp show ?thesis by simp
qed

theorem caller_props_take_precedence_witness:
  "fetch_plugin_props [(''vnet'', ''on''), (''ip4_addr'', ''none'')]
      [''ip4_addr=lo0|10.0.0.2/24'', ''boot=off''] ''11.2-RELEASE'' ''11.2-RELEASE-p4''
   = Inr [''ip4_addr=lo0|10.0.0.2/24'', ''boot=off'', ''vnet=on'',
          ''cloned_release=11.2-RELEASE'', ''release=11.2-RELEASE-p4'', ''type=plugin'', ''boot=on'']"
proof -
  have h1: "distinct (map fst [(''vnet'', ''on''), (''ip4_addr'', ''none'')])" by simp
  have h2: "fetch_plugin_props [(''vnet'', ''on''), (''ip4_addr'', ''none'')]
      [''ip4_addr=lo0|10.0.0.2/24'', ''boot=off''] ''11.2-RELEASE'' ''11.2-RELEASE-p4''
   = Inr [''ip4_addr=lo0|10.0.0.2/24'', ''boot=off'', ''vnet=on'',
          ''cloned_release=11.2-RELEASE'', ''release=11.2-RELEASE-p4'', ''type=plugin'', ''boot=on'']"
    by code_simp
  from caller_props_take_precedence [OF h1 h2] h2 show ?thesis by simp
qed


subsection \<open>The fingerprint file of a repository\<close>

lemma write_file_frame [simp]:
  "cwd (write_file p b w) = cwd w" "dl (write_file p b w) = dl w"
  "dirs (write_file p b w) = dirs w" "trace (write_file p b w) = trace w"
  by (simp_all add: write_file_def)

lemma write_file_fs:
  "fs (write_file p b w) k = (if k = abspath (cwd w) p then Some b else fs w k)"
  by (simp add: write_file_def)

lemma write_fingerprints_cwd [simp]: "cwd (write_fingerprints p rs w) = cwd w"
  by (induction p rs w rule: write_fingerprints.induct) simp_all

lemma write_fingerprints_other:
  "k \<noteq> abspath (cwd w) p \<Longrightarrow> fs (write_fingerprints p rs w) k = fs w k"
  by (induction p rs w rule: write_fingerprints.induct) (simp_all add: write_file_fs)

lemma write_fingerprints_last:
  "rs \<noteq> [] \<Longrightarrow>
   fs (write_fingerprints p rs w) (abspath (cwd w) p) = Some (finger_conf (fst (last rs)) (snd (last rs)))"
proof (induction p rs w rule: write_fingerprints.induct)
  case (1 p w)
  then show ?case by simp
next
  case (2 p fn fp rs w)
  show ?case
  proof (cases "rs = []")
    case True
    then show ?thesis by (simp add: write_file_fs)
  next
    case False
    with 2 show ?thesis by simp
  qed
qed

lemma write_fingerprints_last_at:
  "rs \<noteq> [] \<Longrightarrow> cwd w' = cwd w \<Longrightarrow>
   fs (write_fingerprints p rs w') (abspath (cwd w) p) = Some (finger_conf (fst (last rs)) (snd (last rs)))"
  using write_fingerprints_last [of rs p w'] by simp

lemma makedirs_frame [simp]:
  "cwd (snd (makedirs p w)) = cwd w" "fs (snd (makedirs p w)) = fs w"
  "dl (snd (makedirs p w)) = dl w" "trace (snd (makedirs p w)) = trace w"
  by (simp_all add: makedirs_def)

lemma write_repo_cwd [simp]: "cwd (write_repo conf jaildir repo_dir repo w) = cwd w"
  by (cases repo) (simp add: write_repo_def split_beta Let_def)

lemma write_repos_cwd [simp]: "cwd (write_repos conf jaildir repo_dir repos w) = cwd w"
  by (induction repos arbitrary: w) simp_all

lemma write_repo_last:
  "pairs \<noteq> [] \<Longrightarrow>
   fs (write_repo conf jaildir repo_dir (name, pairs) w) (abspath (cwd w) (f_file jaildir name))
   = Some (finger_conf (fst (last pairs)) (snd (last pairs)))"
  by (simp add: write_repo_def split_beta Let_def write_fingerprints_last_at)

lemma write_repo_other:
  "k \<noteq> abspath (cwd w) (r_file repo_dir n) \<Longrightarrow> k \<noteq> abspath (cwd w) (f_file jaildir n) \<Longrightarrow>
   fs (write_repo conf jaildir repo_dir (n, ps) w) k = fs w k"
  by (simp add: write_repo_def split_beta Let_def write_fingerprints_other write_file_fs)

lemma write_repos_other:
  "\<forall>(n, ps) \<in> set repos. k \<noteq> abspath (cwd w) (r_file repo_dir n) \<and> k \<noteq> abspath (cwd w) (f_file jaildir n) \<Longrightarrow>
   fs (write_repos conf jaildir repo_dir repos w) k = fs w k"
proof (induction repos arbitrary: w)
  case Nil
  then show ?case by simp
next
  case (Cons repo repos)
  obtain n ps where repo: "repo = (n, ps)" by (cases repo)
  from Cons.prems repo have here: "k \<noteq> abspath (cwd w) (r_file repo_dir n)" "k \<noteq> abspath (cwd w) (f_file jaildir n)"
    by simp_all
  from Cons.prems have rest: "\<forall>(n, ps) \<in> set repos.
      k \<noteq> abspath (cwd (write_repo conf jaildir repo_dir repo w)) (r_file repo_dir n)
      \<and> k \<noteq> abspath (cwd (write_repo conf jaildir repo_dir repo w)) (f_file jaildir n)"
    by simp
  show ?case
    using Cons.IH [OF rest] write_repo_other [OF here, of conf ps] repo by simp
qed

lemma write_repos_append:
  "write_repos conf jaildir repo_dir (xs @ ys) w
   = write_repos conf jaildir repo_dir ys (write_repos conf jaildir repo_dir xs w)"
  by (induction xs arbitrary: w) simp_all

lemma write_repos_last:
  assumes "pairs \<noteq> []"
    and "\<forall>(n, ps) \<in> set after. abspath (cwd w) (f_file jaildir name) \<noteq> abspath (cwd w) (r_file repo_dir n)
            \<and> abspath (cwd w) (f_file jaildir name) \<noteq> abspath (cwd w) (f_file jaildir n)"
  shows "fs (write_repos conf jaildir repo_dir (before @ (name, pairs) # after) w)
            (abspath (cwd w) (f_file jaildir name))
         = Some (finger_conf (fst (last pairs)) (snd (last pairs)))"
proof -
  let ?w1 = "write_repos conf jaildir repo_dir before w"
  let ?w2 = "write_repo conf jaildir repo_dir (name, pairs) ?w1"
  have "fs ?w2 (abspath (cwd w) (f_file jaildir name))
        = Some (finger_conf (fst (last pairs)) (snd (last pairs)))"
    using write_repo_last [OF assms(1), of conf jaildir repo_dir name ?w1] by simp
  moreover have "fs (write_repos conf jaildir repo_dir after ?w2) (abspath (cwd w) (f_file jaildir name))
        = fs ?w2 (abspath (cwd w) (f_file jaildir name))"
    by (rule write_repos_other) (use assms(2) in simp)
  ultimately show ?thesis by (simp add: write_repos_append)
qed

lemma external_frame: "snd (external out w) = w"
  by (cases out) (simp_all add: external_def)

lemma load_kmods_frame:
  "cwd (snd (load_kmods env ks w)) = cwd w" "fs (snd (load_kmods env ks w)) = fs w"
  by (induction ks arbitrary: w) (simp_all split: outcome.splits)

lemma install_packages_fs:
  assumes "fetch_plugin_install_packages env conf uuid jaildir repo_dir w = (Inr (), w')"
  shows "fs w' = fs (write_repos conf jaildir repo_dir (fingerprints conf)
                   (write_file (jaildir @ ''/root/usr/local/etc/pkg/repos/FreeBSD.conf'')
                      (''FreeBSD: { enabled: no }'' @ [CHR 0x0A])
                      (snd (makedirs repo_dir (snd (makedirs (jaildir @ ''/root/usr/local/etc/pkg/repos'')
                         (snd (load_kmods env (kmods conf) w))))))))"
  using assms
  by (cases "load_kmods env (kmods conf) w"; cases "install_packages env")
     (auto simp: fetch_plugin_install_packages_def andthen_def external_def Let_def
           split: sum.splits if_splits)

text \<open>
  Claim C9. The fingerprint file of a repository is opened for writing, and so truncated,
  once for each pair of its list. When the installation of the packages returns, the file
  of a repository with a non-empty list holds the text of the last pair of the list and
  nothing else: the earlier pairs are lost. The repositories that follow in the descriptor
  are taken to write to other files.
\<close>

theorem fingerprint_file_keeps_last_pair:
  assumes "fetch_plugin_install_packages env conf uuid jaildir repo_dir w = (Inr (), w')"
    and "fingerprints conf = before @ (name, pairs) # after"
    and "pairs \<noteq> []"
    and "\<forall>(n, ps) \<in> set after.
            abspath (cwd w) (f_file jaildir name) \<noteq> abspath (cwd w) (r_file repo_dir n)
          \<and> abspath (cwd w) (f_file jaildir name) \<noteq> abspath (cwd w) (f_file jaildir n)"
  shows "fs w' (abspath (cwd w) (f_file jaildir name))
         = Some (finger_conf (fst (last pairs)) (snd (last pairs)))"
proof -
  let ?w0 = "write_file (jaildir @ ''/root/usr/local/etc/pkg/repos/FreeBSD.conf'')
                      (''FreeBSD: { enabled: no }'' @ [CHR 0x0A])
                      (snd (makedirs repo_dir (snd (makedirs (jaildir @ ''/root/usr/local/etc/pkg/repos'')
                         (snd (load_kmods env (kmods conf) w))))))"
  have cwd0: "cwd ?w0 = cwd w" by (simp add: load_kmods_frame)
  from assms(4) have later: "\<forall>(n, ps) \<in> set after.
            abspath (cwd ?w0) (f_file jaildir name) \<noteq> abspath (cwd ?w0) (r_file repo_dir n)
          \<and> abspath (cwd ?w0) (f_file jaildir name) \<noteq> abspath (cwd ?w0) (f_file jaildir n)"
    unfolding cwd0 .
  show ?thesis
    using write_repos_last [OF assms(3) later, of conf before]
    unfolding install_packages_fs [OF assms(1)] assms(2) cwd0 .
qed

theorem fingerprint_file_keeps_last_pair_witness:
  "fs (snd (fetch_plugin_install_packages demo_env demo_plugin ''quassel'' ''/iocage/jails/quassel''
              ''/iocage/jails/quassel/root/usr/local/etc/pkg/repos'' demo_empty))
      ''/iocage/jails/quassel/root/usr/local/etc/pkg/fingerprints/iocage-plugins/trusted/iocage-plugins''
   = Some (''function: sha256'' @ [CHR 0x0A] @ ''fingerprint: bbbb'' @ [CHR 0x0A])"
proof -
  let ?run = "fetch_plugin_install_packages demo_env demo_plugin ''quassel'' ''/iocage/jails/quassel''
                ''/iocage/jails/quassel/root/usr/local/etc/pkg/repos'' demo_empty"
  have "fst ?run = Inr ()" by code_simp
  then have h1: "?run = (Inr (), snd ?run)" by (rule result_eqI)
  have h2: "fingerprints demo_plugin
      = [] @ (''iocage-plugins'', [(''sha256'', ''aaaa''), (''sha256'', ''bbbb'')])
           # [(''extra'', [(''sha256'', ''cccc'')])]"
    by (simp add: demo_plugin_def)
  have h3: "[(''sha256'', ''aaaa''), (''sha256'', ''bbbb'')] \<noteq> []" by simp
  have h4: "\<forall>(n, ps) \<in> set [(''extra'', [(''sha256'', ''cccc'')])].
      abspath (cwd demo_empty) (f_file ''/iocage/jails/quassel'' ''iocage-plugins'')
        \<noteq> abspath (cwd demo_empty) (r_file ''/iocage/jails/quassel/root/usr/local/etc/pkg/repos'' n)
    \<and> abspath (cwd demo_empty) (f_file ''/iocage/jails/quassel'' ''iocage-plugins'')
        \<noteq> abspath (cwd demo_empty) (f_file ''/iocage/jails/quassel'' n)"
    by code_simp
  have p: "abspath (cwd demo_empty) (f_file ''/iocage/jails/quassel'' ''iocage-plugins'')
      = ''/iocage/jails/quassel/root/usr/local/etc/pkg/fingerprints/iocage-plugins/trusted/iocage-plugins''"
    by code_simp
  from fingerprint_file_keeps_last_pair [OF h1 h2 h3 h4]
  show ?thesis unfolding p by (simp add: finger_conf_def)
qed

subsection \<open>Destruction of a partial plugin\<close>

lemma destroyed_append [simp]: "destroyed (xs @ ys) = destroyed xs @ destroyed ys"
  by (simp add: destroyed_def)

lemma destroyed_Nil [simp]: "destroyed [] = []"
  by (simp add: destroyed_def)

lemma destroyed_Cons [simp]:
  "destroyed (e # es) = (case e of DestroyJail p \<Rightarrow> [p] | _ \<Rightarrow> []) @ destroyed es"
  by (simp add: destroyed_def)

lemma external_snd [simp]: "snd (external out w) = w"
  by (cases out) (simp_all add: external_def)

lemma external_fst:
  "fst (external out w) = (case out of Done a \<Rightarrow> Inr a | Interrupt \<Rightarrow> Inl KeyboardInterrupt
                           | Raise msg \<Rightarrow> Inl (ExternalError msg))"
  by (cases out) (simp_all add: external_def)

lemma andthen_Inr: "fst r = Inr a \<Longrightarrow> andthen r k = k a (snd r)"
  by (cases r) (simp add: andthen_def)

lemma andthen_Inl: "fst r = Inl e \<Longrightarrow> andthen r k = (Inl e, snd r)"
  by (cases r) (simp add: andthen_def)

lemma load_kmods_trace: "destroyed (trace (snd (load_kmods env ks w))) = destroyed (trace w)"
  by (induction ks arbitrary: w) (simp_all split: outcome.splits)

lemma load_kmods_error:
  "fst (load_kmods env ks w) \<noteq> Inl (Fatal ''Destroyed partial plugin.'')"
  by (induction ks arbitrary: w) (simp_all split: outcome.splits)

lemma load_kmods_done:
  "\<forall>k \<in> set ks. kldload env k = Done () \<Longrightarrow> fst (load_kmods env ks w) = Inr ()"
  by (induction ks arbitrary: w) simp_all

lemma write_fingerprints_trace [simp]: "trace (write_fingerprints p rs w) = trace w"
  by (induction p rs w rule: write_fingerprints.induct) simp_all

lemma write_repo_trace: "destroyed (trace (write_repo conf jaildir repo_dir repo w)) = destroyed (trace w)"
  by (cases repo) (simp add: write_repo_def split_beta Let_def)

lemma write_repos_trace: "destroyed (trace (write_repos conf jaildir repo_dir repos w)) = destroyed (trace w)"
  by (induction repos arbitrary: w) (simp_all add: write_repo_trace)

lemma install_packages_unfold:
  "fetch_plugin_install_packages env conf uuid jaildir repo_dir w =
     (case fst (load_kmods env (kmods conf) w) of
        Inl e \<Rightarrow> (Inl e, snd (load_kmods env (kmods conf) w))
      | Inr u \<Rightarrow>
          (let w4 = write_repos conf jaildir repo_dir (fingerprints conf)
                      (write_file (jaildir @ ''/root/usr/local/etc/pkg/repos/FreeBSD.conf'')
                         (''FreeBSD: { enabled: no }'' @ [CHR 0x0A])
                         (snd (makedirs repo_dir (snd (makedirs (jaildir @ ''/root/usr/local/etc/pkg/repos'')
                            (snd (load_kmods env (kmods conf) w)))))))
           in if fingerprints conf = [] then (Inl (ExternalError ''UnboundLocalError''), w4)
              else (case install_packages env of
                      Done err \<Rightarrow>
                        (Inr (),
                         if err
                         then emit (Logit ERROR (''pkg error, refusing to fetch artifact and run post_install.sh!''
                                                 @ [CHR 0x0A])) (emit (InstallPackages uuid) w4)
                         else emit (InstallPackages uuid) w4)
                    | Interrupt \<Rightarrow> (Inl KeyboardInterrupt, emit (InstallPackages uuid) w4)
                    | Raise msg \<Rightarrow> (Inl (ExternalError msg), emit (InstallPackages uuid) w4))))"
  by (cases "load_kmods env (kmods conf) w"; cases "install_packages env")
     (auto simp: fetch_plugin_install_packages_def andthen_def external_def Let_def split: sum.splits)

lemma install_packages_trace:
  "destroyed (trace (snd (fetch_plugin_install_packages env conf uuid jaildir repo_dir w))) = destroyed (trace w)"
  by (cases "fst (load_kmods env (kmods conf) w)"; cases "install_packages env")
     (simp_all add: install_packages_unfold Let_def write_repos_trace load_kmods_trace)

lemma install_packages_error:
  "fst (fetch_plugin_install_packages env conf uuid jaildir repo_dir w) \<noteq> Inl (Fatal ''Destroyed partial plugin.'')"
  using load_kmods_error [of env "kmods conf" w]
  by (cases "fst (load_kmods env (kmods conf) w)"; cases "install_packages env")
     (simp_all add: install_packages_unfold Let_def)

lemma post_install_trace:
  "destroyed (trace (snd (fetch_plugin_post_install env conf jaildir uuid w))) = destroyed (trace w)"
  by (cases "clone_repository env"; cases "exec_jail env")
     (simp_all add: fetch_plugin_post_install_def andthen_def external_def split_beta)

lemma post_install_error:
  "fst (fetch_plugin_post_install env conf jaildir uuid w) \<noteq> Inl (Fatal ''Destroyed partial plugin.'')"
  by (cases "clone_repository env"; cases "exec_jail env")
     (simp_all add: fetch_plugin_post_install_def andthen_def external_def split_beta)

lemma create_cases:
  "fetch_plugin_create env c props uuid w =
     (case create_jail env of
        Done u \<Rightarrow>
          if no_address env
          then (Inl (Fatal ''Destroyed partial plugin.''),
                w\<lparr>trace := trace w @ [CreateJail uuid props,
                     Logit ERROR ([CHR 0x0A] @ ''An IP address is needed to fetch a plugin!'' @ [CHR 0x0A]),
                     DestroyJail (pool c @ ''/iocage/jails/'' @ uuid)]\<rparr>)
          else (Inr (jail_dir c uuid, jail_dir c uuid @ ''/root/usr/local/etc/pkg/repos''),
                emit (CreateJail uuid props) w)
      | Interrupt \<Rightarrow> (Inl KeyboardInterrupt, emit (CreateJail uuid props) w)
      | Raise msg \<Rightarrow> (Inl (ExternalError msg), emit (CreateJail uuid props) w))"
  by (cases "create_jail env")
     (simp_all add: fetch_plugin_create_def andthen_def external_def Let_def emit_def)

lemma steps_after_create:
  assumes "create_jail env = Done ()" and "\<not> no_address env"
  shows "plugin_steps env c conf props w =
           andthen (fetch_plugin_install_packages env conf (pname conf) (jail_dir c (pname conf))
                      (jail_dir c (pname conf) @ ''/root/usr/local/etc/pkg/repos'')
                      (emit (CreateJail (pname conf) props) w))
             (\<lambda>u w2. fetch_plugin_post_install env conf (jail_dir c (pname conf)) (pname conf) w2)"
  using assms by (simp add: plugin_steps_def create_cases andthen_def)

lemma steps_destroyed:
  "destroyed (trace (snd (plugin_steps env c conf props w)))
   = destroyed (trace w)
     @ (if fst (plugin_steps env c conf props w) = Inl (Fatal ''Destroyed partial plugin.'')
        then [pool c @ ''/iocage/jails/'' @ pname conf] else [])"
proof (cases "create_jail env = Done () \<and> \<not> no_address env")
  case False
  then show ?thesis
    by (cases "create_jail env") (simp_all add: plugin_steps_def create_cases andthen_def)
next
  case True
  let ?i = "fetch_plugin_install_packages env conf (pname conf) (jail_dir c (pname conf))
              (jail_dir c (pname conf) @ ''/root/usr/local/etc/pkg/repos'')
              (emit (CreateJail (pname conf) props) w)"
  show ?thesis
  proof (cases "fst ?i")
    case (Inl e)
    with install_packages_error [of env conf "pname conf" "jail_dir c (pname conf)"
        "jail_dir c (pname conf) @ ''/root/usr/local/etc/pkg/repos''" "emit (CreateJail (pname conf) props) w"]
    show ?thesis using True
      by (simp add: steps_after_create andthen_Inl install_packages_trace)
  next
    case (Inr u)
    then show ?thesis using True
      by (simp add: steps_after_create andthen_Inr post_install_trace post_install_error
            install_packages_trace)
  qed
qed

lemma fetch_plugin_cases:
  "fetch_plugin env c conf props w =
     (if fst (plugin_steps env c conf props w) = Inl KeyboardInterrupt
      then (Inl (SystemExit 1),
            emit (DestroyJail (jail_dir c (pname conf))) (snd (plugin_steps env c conf props w)))
      else plugin_steps env c conf props w)"
  by (cases "plugin_steps env c conf props w")
     (auto simp: fetch_plugin_def split: sum.splits error.splits)

lemma steps_interrupt_install:
  assumes "create_jail env = Done ()" and "\<not> no_address env"
    and "\<forall>k \<in> set (kmods conf). kldload env k = Done ()"
    and "fingerprints conf \<noteq> []" and "install_packages env = Interrupt"
  shows "fst (plugin_steps env c conf props w) = Inl KeyboardInterrupt"
proof -
  have "fst (fetch_plugin_install_packages env conf (pname conf) (jail_dir c (pname conf))
              (jail_dir c (pname conf) @ ''/root/usr/local/etc/pkg/repos'')
              (emit (CreateJail (pname conf) props) w)) = Inl KeyboardInterrupt"
    using assms(4,5) load_kmods_done [OF assms(3)]
    by (simp add: install_packages_unfold Let_def)
  then show ?thesis
    by (simp add: steps_after_create [OF assms(1,2)] andthen_Inl)
qed

lemma steps_interrupt_post:
  assumes "create_jail env = Done ()" and "\<not> no_address env"
    and "\<forall>k \<in> set (kmods conf). kldload env k = Done ()"
    and "fingerprints conf \<noteq> []" and "install_packages env = Done err"
    and "artifact conf \<noteq> []"
    and "clone_repository env = Interrupt
         \<or> clone_repository env = Done () \<and> has_post_install env \<and> exec_jail env = Interrupt"
  shows "fst (plugin_steps env c conf props w) = Inl KeyboardInterrupt"
proof -
  have "fst (fetch_plugin_install_packages env conf (pname conf) (jail_dir c (pname conf))
              (jail_dir c (pname conf) @ ''/root/usr/local/etc/pkg/repos'')
              (emit (CreateJail (pname conf) props) w)) = Inr ()"
    using assms(4,5) load_kmods_done [OF assms(3)]
    by (simp add: install_packages_unfold Let_def)
  moreover have "fst (fetch_plugin_post_install env conf (jail_dir c (pname conf)) (pname conf) w2)
      = Inl KeyboardInterrupt" for w2
    using assms(6,7)
    by (auto simp: fetch_plugin_post_install_def andthen_def external_def)
  ultimately show ?thesis
    by (simp add: steps_after_create [OF assms(1,2)] andthen_Inr)
qed

text \<open>
  Claim C3. A plugin whose jail was created without an address is destroyed, by its dataset
  \<open>pool/iocage/jails/name\<close>, and the run ends with the fatal error \<open>Destroyed partial plugin.\<close>
  A keyboard interruption of the creation, of the installation of the packages or of the
  post-install step (the clone of the artifact, the run of the script) is answered by a
  call of \<open>destroy_jail\<close> on \<open>iocroot/jails/name\<close> and exit status 1. A run that ends in any
  other way calls \<open>destroy_jail\<close> not at all: every other failure leaves the jail in place.
\<close>

theorem plugin_destruction:
  "(create_jail env = Done () \<and> no_address env \<longrightarrow>
      fetch_plugin env c conf props w
      = (Inl (Fatal ''Destroyed partial plugin.''),
         w\<lparr>trace := trace w @ [CreateJail (pname conf) props,
              Logit ERROR ([CHR 0x0A] @ ''An IP address is needed to fetch a plugin!'' @ [CHR 0x0A]),
              DestroyJail (pool c @ ''/iocage/jails/'' @ pname conf)]\<rparr>))
   \<and> (fst (plugin_steps env c conf props w) = Inl KeyboardInterrupt \<longrightarrow>
      fetch_plugin env c conf props w
      = (Inl (SystemExit 1),
         emit (DestroyJail (jail_dir c (pname conf))) (snd (plugin_steps env c conf props w))))
   \<and> (create_jail env = Interrupt \<longrightarrow> fst (plugin_steps env c conf props w) = Inl KeyboardInterrupt)
   \<and> (create_jail env = Done () \<and> \<not> no_address env
        \<and> (\<forall>k \<in> set (kmods conf). kldload env k = Done ()) \<and> fingerprints conf \<noteq> []
        \<and> (install_packages env = Interrupt
           \<or> (\<exists>err. install_packages env = Done err) \<and> artifact conf \<noteq> []
             \<and> (clone_repository env = Interrupt
                \<or> clone_repository env = Done () \<and> has_post_install env \<and> exec_jail env = Interrupt))
      \<longrightarrow> fst (plugin_steps env c conf props w) = Inl KeyboardInterrupt)
   \<and> (fst (fetch_plugin env c conf props w) \<noteq> Inl (SystemExit 1)
        \<and> fst (fetch_plugin env c conf props w) \<noteq> Inl (Fatal ''Destroyed partial plugin.'')
      \<longrightarrow> destroyed (trace (snd (fetch_plugin env c conf props w))) = destroyed (trace w))"
proof (intro conjI impI)
  assume "create_jail env = Done () \<and> no_address env"
  then show "fetch_plugin env c conf props w
      = (Inl (Fatal ''Destroyed partial plugin.''),
         w\<lparr>trace := trace w @ [CreateJail (pname conf) props,
              Logit ERROR ([CHR 0x0A] @ ''An IP address is needed to fetch a plugin!'' @ [CHR 0x0A]),
              DestroyJail (pool c @ ''/iocage/jails/'' @ pname conf)]\<rparr>)"
    by (simp add: fetch_plugin_cases plugin_steps_def create_cases andthen_def)
next
  assume "fst (plugin_steps env c conf props w) = Inl KeyboardInterrupt"
  then show "fetch_plugin env c conf props w
      = (Inl (SystemExit 1),
         emit (DestroyJail (jail_dir c (pname conf))) (snd (plugin_steps env c conf props w)))"
    by (simp add: fetch_plugin_cases)
next
  assume "create_jail env = Interrupt"
  then show "fst (plugin_steps env c conf props w) = Inl KeyboardInterrupt"
    by (simp add: plugin_steps_def create_cases andthen_def)
next
  assume a: "create_jail env = Done () \<and> \<not> no_address env
        \<and> (\<forall>k \<in> set (kmods conf). kldload env k = Done ()) \<and> fingerprints conf \<noteq> []
        \<and> (install_packages env = Interrupt
           \<or> (\<exists>err. install_packages env = Done err) \<and> artifact conf \<noteq> []
             \<and> (clone_repository env = Interrupt
                \<or> clone_repository env = Done () \<and> has_post_install env \<and> exec_jail env = Interrupt))"
  then consider "install_packages env = Interrupt"
    | err where "install_packages env = Done err" "artifact conf \<noteq> []"
        "clone_repository env = Interrupt
         \<or> clone_repository env = Done () \<and> has_post_install env \<and> exec_jail env = Interrupt"
    by blast
  then show "fst (plugin_steps env c conf props w) = Inl KeyboardInterrupt"
  proof cases
    case 1
    with a show ?thesis by (simp add: steps_interrupt_install)
  next
    case 2
    from a have "create_jail env = Done ()" "\<not> no_address env"
      "\<forall>k \<in> set (kmods conf). kldload env k = Done ()" "fingerprints conf \<noteq> []"
      by simp_all
    from steps_interrupt_post [OF this 2] show ?thesis .
  qed
next
  assume a: "fst (fetch_plugin env c conf props w) \<noteq> Inl (SystemExit 1)
        \<and> fst (fetch_plugin env c conf props w) \<noteq> Inl (Fatal ''Destroyed partial plugin.'')"
  then have "fst (plugin_steps env c conf props w) \<noteq> Inl KeyboardInterrupt"
    by (auto simp: fetch_plugin_cases)
  with a show "destroyed (trace (snd (fetch_plugin env c conf props w))) = destroyed (trace w)"
    by (simp add: fetch_plugin_cases steps_destroyed)
qed

theorem plugin_destruction_witness:
  "fst (fetch_plugin demo_env_no_address demo_fetch demo_plugin [''boot=on''] demo_empty)
     = Inl (Fatal ''Destroyed partial plugin.'')
   \<and> destroyed (trace (snd (fetch_plugin demo_env_no_address demo_fetch demo_plugin [''boot=on''] demo_empty)))
     = [''zroot/iocage/jails/quassel'']
   \<and> fst (fetch_plugin demo_env_interrupt demo_fetch demo_plugin [''boot=on''] demo_empty)
     = Inl (SystemExit 1)
   \<and> last (trace (snd (fetch_plugin demo_env_interrupt demo_fetch demo_plugin [''boot=on''] demo_empty)))
     = DestroyJail ''/iocage/jails/quassel''
   \<and> destroyed (trace (snd (fetch_plugin demo_env_no_kmod demo_fetch demo_plugin [''boot=on''] demo_empty)))
     = []"
proof -
  have a: "create_jail demo_env_no_address = Done () \<and> no_address demo_env_no_address"
    by code_simp
  have p: "pool demo_fetch @ ''/iocage/jails/'' @ pname demo_plugin = ''zroot/iocage/jails/quassel''"
    by code_simp
  from plugin_destruction [of demo_env_no_address demo_fetch demo_plugin "[''boot=on'']" demo_empty] a
  have "fetch_plugin demo_env_no_address demo_fetch demo_plugin [''boot=on''] demo_empty
      = (Inl (Fatal ''Destroyed partial plugin.''),
         demo_empty\<lparr>trace := trace demo_empty @ [CreateJail (pname demo_plugin) [''boot=on''],
              Logit ERROR ([CHR 0x0A] @ ''An IP address is needed to fetch a plugin!'' @ [CHR 0x0A]),
              DestroyJail (pool demo_fetch @ ''/iocage/jails/'' @ pname demo_plugin)]\<rparr>)"
    by blast
  then have 1: "fst (fetch_plugin demo_env_no_address demo_fetch demo_plugin [''boot=on''] demo_empty)
       = Inl (Fatal ''Destroyed partial plugin.'')"
    and 2: "destroyed (trace (snd (fetch_plugin demo_env_no_address demo_fetch demo_plugin [''boot=on''] demo_empty)))
       = [''zroot/iocage/jails/quassel'']"
    unfolding p by (simp_all add: demo_empty_def)
  have b: "create_jail demo_env_interrupt = Done () \<and> \<not> no_address demo_env_interrupt
        \<and> (\<forall>k \<in> set (kmods demo_plugin). kldload demo_env_interrupt k = Done ())
        \<and> fingerprints demo_plugin \<noteq> []
        \<and> (install_packages demo_env_interrupt = Interrupt
           \<or> (\<exists>err. install_packages demo_env_interrupt = Done err) \<and> artifact demo_plugin \<noteq> []
             \<and> (clone_repository demo_env_interrupt = Interrupt
                \<or> clone_repository demo_env_interrupt = Done () \<and> has_post_install demo_env_interrupt
                  \<and> exec_jail demo_env_interrupt = Interrupt))"
    by (simp add: demo_env_interrupt_def demo_env_def demo_plugin_def no_address_def)
  have j: "jail_dir demo_fetch (pname demo_plugin) = ''/iocage/jails/quassel''"
    by code_simp
  from plugin_destruction [of demo_env_interrupt demo_fetch demo_plugin "[''boot=on'']" demo_empty] b
  have "fetch_plugin demo_env_interrupt demo_fetch demo_plugin [''boot=on''] demo_empty
      = (Inl (SystemExit 1),
         emit (DestroyJail (jail_dir demo_fetch (pname demo_plugin)))
           (snd (plugin_steps demo_env_interrupt demo_fetch demo_plugin [''boot=on''] demo_empty)))"
    by blast
  then have 3: "fst (fetch_plugin demo_env_interrupt demo_fetch demo_plugin [''boot=on''] demo_empty)
       = Inl (SystemExit 1)"
    and 4: "last (trace (snd (fetch_plugin demo_env_interrupt demo_fetch demo_plugin [''boot=on''] demo_empty)))
       = DestroyJail ''/iocage/jails/quassel''"
    unfolding j by (simp_all add: emit_def)
  have c: "fst (fetch_plugin demo_env_no_kmod demo_fetch demo_plugin [''boot=on''] demo_empty) \<noteq> Inl (SystemExit 1)
        \<and> fst (fetch_plugin demo_env_no_kmod demo_fetch demo_plugin [''boot=on''] demo_empty)
          \<noteq> Inl (Fatal ''Destroyed partial plugin.'')"
    by code_simp
  from plugin_destruction [of demo_env_no_kmod demo_fetch demo_plugin "[''boot=on'']" demo_empty] c
  have "destroyed (trace (snd (fetch_plugin demo_env_no_kmod demo_fetch demo_plugin [''boot=on''] demo_empty)))
      = destroyed (trace demo_empty)"
    by blast
  then have 5: "destroyed (trace (snd (fetch_plugin demo_env_no_kmod demo_fetch demo_plugin [''boot=on''] demo_empty)))
      = []"
    by (simp add: demo_empty_def)
  from 1 2 3 4 5 show ?thesis by blast
qed

text \<open>
  The claim as written has every fatal failure after the creation of the jail destroy it.
  On a host without the kernel module that the plugin asks for, the jail is created, the
  load of the module fails, and the run ends with the fatal error \<open>Module not found!\<close>
  without a call of \<open>destroy_jail\<close>.
\<close>

theorem orphaned_plugin_counterexample:
  "fst (fetch_plugin demo_env_no_kmod demo_fetch demo_plugin [''boot=on''] demo_empty)
     = Inl (Fatal ''Module not found!'')
   \<and> trace (snd (fetch_plugin demo_env_no_kmod demo_fetch demo_plugin [''boot=on''] demo_empty))
     = [CreateJail ''quassel'' [''boot=on''], Kldload ''fuse'']"
  by code_simp

end
